theory Spec2Isabelle
  imports Complex_Main
begin

section \<open>The Tacotron model class (models/tacotron.py)\<close>

text \<open>
  The class \<^verbatim>\<open>Tacotron\<close> builds a TensorFlow graph in three calls:
  \<^verbatim>\<open>initialize\<close>, \<^verbatim>\<open>add_loss\<close> and \<^verbatim>\<open>add_optimizer\<close>.
  The embedding follows the values the graph computes.  A tensor is a nested list of
  real numbers, batch-major as in the source; arithmetic on tensor entries is exact
  (the reals), so a statement here is about the formula the graph evaluates, not
  about its rounding.  The one number that Python computes in floats and truncates to
  an integer, \<open>n_priority_freq\<close>, is computed with the rounding of the floats.
  Outcomes that are no real number (a Python exception, a TensorFlow shape error, a
  NaN) are values of the type \<open>failure\<close>.
\<close>

type_synonym vec = "real list"
type_synonym mat = "real list list"
type_synonym tensor3 = "real list list list"

datatype failure =
    ZeroDivisionError
  | ValueError
  | TypeError
  | InvalidArgumentError
  | OverflowError
  | NotANumber

text \<open>The hyperparameters the three methods read from \<^verbatim>\<open>self._hparams\<close>.\<close>

record hparams =
  num_mels :: nat
  outputs_per_step :: nat
  num_freq :: nat
  max_iters :: nat
  sample_rate :: real
  max_abs_value :: real
  symmetric_mels :: bool
  initial_learning_rate :: real
  learning_rate_decay_halflife :: real

subsection \<open>TensorFlow operations used by the optimizer\<close>

text \<open>
  \<^verbatim>\<open>tf.nn.l2_loss(t)\<close> is \<^verbatim>\<open>sum(t ** 2) / 2\<close>; a variable or a gradient is
  given by its entries in row-major order.
\<close>

definition l2_loss :: "vec \<Rightarrow> real" where
  "l2_loss t = sum_list (map (\<lambda>x. x ^ 2) t) / 2"

text \<open>
  \<^verbatim>\<open>tf.global_norm(t_list)\<close>: the square root of twice the sum of the
  \<^verbatim>\<open>l2_loss\<close> of every entry that is not \<^verbatim>\<open>None\<close>.
\<close>

definition global_norm :: "vec option list \<Rightarrow> real" where
  "global_norm t_list =
     sqrt (sum_list (map l2_loss (List.map_filter id t_list)) * 2)"

text \<open>
  \<^verbatim>\<open>tf.clip_by_global_norm(t_list, clip_norm)\<close> multiplies every entry by
  \<^verbatim>\<open>clip_norm * minimum(1.0 / use_norm, 1.0 / clip_norm)\<close> and returns the list
  with the norm.  A zero norm makes \<^verbatim>\<open>1.0 / use_norm\<close> infinite, so the minimum is
  the second argument; that branch is written out.
\<close>

definition clip_scale :: "real \<Rightarrow> real \<Rightarrow> real" where
  "clip_scale use_norm clip_norm =
     clip_norm * (if use_norm = 0 then 1 / clip_norm
                  else min (1 / use_norm) (1 / clip_norm))"

definition clip_by_global_norm :: "vec option list \<Rightarrow> real \<Rightarrow> vec option list \<times> real" where
  "clip_by_global_norm t_list clip_norm =
     (let use_norm = global_norm t_list;
          scale = clip_scale use_norm clip_norm
      in (map (map_option (map (\<lambda>v. v * scale))) t_list, use_norm))"

text \<open>
  \<^verbatim>\<open>tf.train.exponential_decay(learning_rate, global_step, decay_steps, decay_rate)\<close>
  with the default \<^verbatim>\<open>staircase=False\<close>:
  \<^verbatim>\<open>learning_rate * decay_rate ^ (global_step / decay_steps)\<close>, a real division.
  With \<^verbatim>\<open>decay_steps = 0\<close> the exponent is infinite or NaN; the model has no such
  number and gives \<open>NotANumber\<close>.
\<close>

definition exponential_decay :: "real \<Rightarrow> int \<Rightarrow> real \<Rightarrow> real \<Rightarrow> failure + real" where
  "exponential_decay lr global_step decay_steps decay_rate =
     (if decay_steps = 0 then Inl NotANumber
      else Inr (lr * decay_rate powr (real_of_int global_step / decay_steps)))"

subsection \<open>add_optimizer\<close>

text \<open>
  The fields \<^verbatim>\<open>add_optimizer\<close> sets.  \<open>optimize\<close> is the list of
  (gradient, variable) pairs handed to \<^verbatim>\<open>optimizer.apply_gradients\<close>; a variable
  is named by its name.
\<close>

record optimizer_fields =
  learning_rate :: real
  gradients :: "vec option list"
  optimize :: "(vec option \<times> string) list"

text \<open>
  \<^verbatim>\<open>optimizer.compute_gradients(self.loss)\<close> is automatic differentiation of the
  whole graph: its result \<open>grads_and_vars\<close> is a parameter.  It raises
  \<^verbatim>\<open>ValueError\<close> when there is no variable, and \<^verbatim>\<open>apply_gradients\<close> raises
  \<^verbatim>\<open>ValueError\<close> when no variable has a gradient.
\<close>

definition add_optimizer ::
  "hparams \<Rightarrow> (vec option \<times> string) list \<Rightarrow> int \<Rightarrow> failure + optimizer_fields" where
  "add_optimizer hp grads_and_vars global_step =
     (case exponential_decay (initial_learning_rate hp) global_step
             (learning_rate_decay_halflife hp) 0.5 of
        Inl e \<Rightarrow> Inl e
      | Inr lr \<Rightarrow>
          if grads_and_vars = [] then Inl ValueError
          else
            let grads = map fst grads_and_vars;
                variables = map snd grads_and_vars;
                clipped_gradients = fst (clip_by_global_norm grads 1)
            in if list_all (\<lambda>g. g = None) clipped_gradients then Inl ValueError
               else Inr \<lparr> learning_rate = lr,
                          gradients = grads,
                          optimize = zip clipped_gradients variables \<rparr>)"

subsection \<open>TensorFlow operations used by the loss\<close>

text \<open>
  A failure of one operation is the outcome of the whole call, as an exception is.
\<close>

definition and_then :: "failure + 'a \<Rightarrow> ('a \<Rightarrow> failure + 'b) \<Rightarrow> failure + 'b" where
  "and_then r f = (case r of Inl e \<Rightarrow> Inl e | Inr x \<Rightarrow> f x)"

text \<open>
  A rank-3 tensor of shape \<open>[N, T, F]\<close> is a list of \<open>N\<close> lists of \<open>T\<close> vectors of
  length \<open>F\<close>.
\<close>

definition has_shape :: "tensor3 \<Rightarrow> nat \<Rightarrow> nat \<Rightarrow> nat \<Rightarrow> bool" where
  "has_shape t N T F =
     (length t = N \<and> list_all (\<lambda>m. length m = T \<and> list_all (\<lambda>v. length v = F) m) t)"

text \<open>
  An elementwise binary operation.  The graph applies it to tensors of one shape; the
  model makes every shape difference an \<open>InvalidArgumentError\<close> (TensorFlow
  would broadcast a dimension of size 1, which no statement below relies on).
\<close>

definition same_shape :: "tensor3 \<Rightarrow> tensor3 \<Rightarrow> bool" where
  "same_shape a b = (map (map length) a = map (map length) b)"

definition elementwise :: "(real \<Rightarrow> real \<Rightarrow> real) \<Rightarrow> tensor3 \<Rightarrow> tensor3 \<Rightarrow> failure + tensor3" where
  "elementwise f a b =
     (if same_shape a b then Inr (map2 (map2 (map2 f)) a b) else Inl InvalidArgumentError)"

definition tf_abs :: "tensor3 \<Rightarrow> tensor3" where
  "tf_abs t = map (map (map abs)) t"

text \<open>
  \<^verbatim>\<open>tf.reduce_mean(t)\<close>: the sum of all entries divided by their number; the mean
  of a tensor with no entry is NaN.
\<close>

definition reduce_mean :: "tensor3 \<Rightarrow> failure + real" where
  "reduce_mean t =
     (let xs = concat (concat t)
      in if xs = [] then Inl NotANumber else Inr (sum_list xs / real (length xs)))"

text \<open>
  The slice \<^verbatim>\<open>t[:, :, 0:stop]\<close>: a stop beyond the last axis is clamped to its
  length, a negative stop counts from the end.
\<close>

definition slice_stop :: "int \<Rightarrow> 'a list \<Rightarrow> 'a list" where
  "slice_stop stop xs =
     (if stop < 0 then take (nat (int (length xs) + stop)) xs else take (nat stop) xs)"

definition slice_last_axis :: "int \<Rightarrow> tensor3 \<Rightarrow> tensor3" where
  "slice_last_axis stop t = map (map (slice_stop stop)) t"

text \<open>Python's \<^verbatim>\<open>int(x)\<close> on a float truncates towards zero.\<close>

definition py_int :: "real \<Rightarrow> int" where
  "py_int x = (if 0 \<le> x then \<lfloor>x\<rfloor> else \<lceil>x\<rceil>)"

text \<open>
  Python's floats are IEEE binary64 numbers, and every operation on them rounds its
  exact result to the nearest float, ties to the even significand.  \<open>float64 x\<close> is
  that float for the real \<open>x\<close>: the significand has 53 bits, the exponent is at least
  \<open>-1022\<close> (below it the floats are subnormal, with the spacing \<open>2 ^ -1074\<close>) and
  is not bounded above; a rounded result of magnitude \<open>2 ^ 1024\<close> or more stands for
  an infinity, which \<open>finite64\<close> tells.  \<open>pow2 k\<close> is \<open>2 ^ k\<close> for an integer
  \<open>k\<close>.
\<close>

definition pow2 :: "int \<Rightarrow> real" where
  "pow2 k = (if 0 \<le> k then 2 ^ nat k else 1 / 2 ^ nat (- k))"

definition round_half_even :: "real \<Rightarrow> int" where
  "round_half_even x =
     (let f = \<lfloor>x\<rfloor>; d = x - of_int f
      in if d < 1 / 2 then f else if 1 / 2 < d then f + 1 else if even f then f else f + 1)"

definition float64 :: "real \<Rightarrow> real" where
  "float64 x =
     (if x = 0 then 0
      else let e = max \<lfloor>log 2 \<bar>x\<bar>\<rfloor> (- 1022);
               quantum = pow2 (e - 52)
           in real_of_int (round_half_even (x / quantum)) * quantum)"

definition finite64 :: "real \<Rightarrow> bool" where
  "finite64 y = (\<bar>y\<bar> < 2 ^ 1024)"

text \<open>
  \<^verbatim>\<open>tf.losses.mean_squared_error(labels, predictions)\<close> with the default weights
  and reduction: \<^verbatim>\<open>ValueError\<close> for labels that are \<^verbatim>\<open>None\<close>, a shape
  error for different shapes, otherwise the sum of the squared differences divided by
  their number, and 0 when there is none (the division is a safe division).
\<close>

definition mean_squared_error :: "tensor3 option \<Rightarrow> tensor3 \<Rightarrow> failure + real" where
  "mean_squared_error labels predictions =
     (case labels of
        None \<Rightarrow> Inl ValueError
      | Some l \<Rightarrow>
          and_then (elementwise (\<lambda>p y. (p - y) ^ 2) predictions l)
            (\<lambda>losses. let xs = concat (concat losses)
                       in Inr (if xs = [] then 0 else sum_list xs / real (length xs))))"

subsection \<open>add_loss\<close>

text \<open>
  The fields \<^verbatim>\<open>initialize\<close> sets on the model (the alignments, which no loss
  reads, are left out).
\<close>

record tacotron =
  inputs :: "nat list list"
  input_lengths :: "nat list"
  decoder_outputs :: tensor3
  mel_outputs :: tensor3
  linear_outputs :: tensor3
  linear_targets :: "tensor3 option"
  mel_targets :: "tensor3 option"

text \<open>The fields \<^verbatim>\<open>add_loss\<close> sets.\<close>

record loss_fields =
  decoder_loss :: real
  mel_loss :: real
  linear_loss :: real
  regularization_loss :: real
  loss :: real

text \<open>
  Lines 144 and 145: \<^verbatim>\<open>l1 = tf.abs(self.linear_targets - self.linear_outputs)\<close>
  (subtracting from \<^verbatim>\<open>None\<close> is a \<^verbatim>\<open>TypeError\<close>) and
  \<^verbatim>\<open>n_priority_freq = int(2000 / (hp.sample_rate * 0.5) * hp.num_freq)\<close>.
  Python evaluates the latter in floats, from left to right: the sample rate is
  converted and multiplied by \<open>0.5\<close>, \<open>2000\<close> is divided by the product (a zero
  divisor raises \<^verbatim>\<open>ZeroDivisionError\<close>), the quotient is multiplied by the
  converted \<open>num_freq\<close>, and \<^verbatim>\<open>int\<close> truncates the result.  An integer too
  large for a float raises \<^verbatim>\<open>OverflowError\<close>, as \<^verbatim>\<open>int\<close> of an infinity
  does; \<^verbatim>\<open>int\<close> of the NaN that infinity times zero gives raises
  \<^verbatim>\<open>ValueError\<close>.
\<close>

definition l1_of :: "tensor3 option \<Rightarrow> tensor3 \<Rightarrow> failure + tensor3" where
  "l1_of targets outputs =
     (case targets of
        None \<Rightarrow> Inl TypeError
      | Some t \<Rightarrow> and_then (elementwise (\<lambda>x y. x - y) t outputs) (\<lambda>d. Inr (tf_abs d)))"

definition n_priority_freq :: "hparams \<Rightarrow> failure + int" where
  "n_priority_freq hp =
     (let rate = float64 (sample_rate hp)
      in if \<not> finite64 rate then Inl OverflowError
         else
           let half_rate = float64 (rate * 0.5)
           in if half_rate = 0 then Inl ZeroDivisionError
              else
                let ratio = float64 (2000 / half_rate);
                    bins = float64 (real (num_freq hp))
                in if \<not> finite64 bins then Inl OverflowError
                   else if \<not> finite64 ratio
                   then (if bins = 0 then Inl ValueError else Inl OverflowError)
                   else
                     let product = float64 (ratio * bins)
                     in if \<not> finite64 product then Inl OverflowError
                        else Inr (py_int product))"

text \<open>
  Line 146:
  \<^verbatim>\<open>0.5 * tf.reduce_mean(l1) + 0.5 * tf.reduce_mean(l1[:,:,0:n_priority_freq])\<close>.
\<close>

definition linear_loss_of :: "tensor3 \<Rightarrow> int \<Rightarrow> failure + real" where
  "linear_loss_of l1 n =
     and_then (reduce_mean l1) (\<lambda>a.
     and_then (reduce_mean (slice_last_axis n l1)) (\<lambda>b.
       Inr (0.5 * a + 0.5 * b)))"

text \<open>
  Lines 149 to 155.  \<^verbatim>\<open>'bias' in v.name\<close> is a substring test;
  \<^verbatim>\<open>tf.add_n\<close> of an empty list raises \<^verbatim>\<open>ValueError\<close>.  The trainable
  variables of the graph are a list of names with values.
\<close>

fun is_in :: "string \<Rightarrow> string \<Rightarrow> bool" where
  "is_in p [] = (p = [])"
| "is_in p (c # cs) = (take (length p) (c # cs) = p \<or> is_in p cs)"

definition reg_weight_of :: "hparams \<Rightarrow> failure + real" where
  "reg_weight_of hp =
     (if symmetric_mels hp
      then (if 2 * max_abs_value hp = 0 then Inl ZeroDivisionError
            else Inr ((1 / 10 ^ 6) * (1 / (2 * max_abs_value hp))))
      else (if max_abs_value hp = 0 then Inl ZeroDivisionError
            else Inr ((1 / 10 ^ 6) * (1 / max_abs_value hp))))"

definition regularized :: "(string \<times> vec) list \<Rightarrow> vec list" where
  "regularized all_vars =
     map snd (filter (\<lambda>(name, v). \<not> (is_in ''bias'' name \<or> is_in ''Bias'' name)) all_vars)"

definition regularization_loss_of :: "hparams \<Rightarrow> (string \<times> vec) list \<Rightarrow> failure + real" where
  "regularization_loss_of hp all_vars =
     and_then (reg_weight_of hp) (\<lambda>reg_weight.
       if regularized all_vars = [] then Inl ValueError
       else Inr (sum_list (map l2_loss (regularized all_vars)) * reg_weight))"

text \<open>
  \<^verbatim>\<open>add_loss\<close>, reading the fields of the model and the trainable variables of
  the graph.  Exceptions come in the order of the source; a NaN in
  \<open>linear_loss\<close> is a value there, not an exception, and is the outcome only when
  nothing raises.
\<close>

definition add_loss :: "hparams \<Rightarrow> tacotron \<Rightarrow> (string \<times> vec) list \<Rightarrow> failure + loss_fields" where
  "add_loss hp m all_vars =
     and_then (mean_squared_error (mel_targets m) (decoder_outputs m)) (\<lambda>dl.
     and_then (mean_squared_error (mel_targets m) (mel_outputs m)) (\<lambda>ml.
     and_then (l1_of (linear_targets m) (linear_outputs m)) (\<lambda>l1.
     and_then (n_priority_freq hp) (\<lambda>n.
     and_then (regularization_loss_of hp all_vars) (\<lambda>rl.
     and_then (linear_loss_of l1 n) (\<lambda>ll.
       Inr \<lparr> decoder_loss = dl, mel_loss = ml, linear_loss = ll,
             regularization_loss = rl, loss = dl + ml + ll + rl \<rparr>))))))"

subsection \<open>The losses in the words of the specification\<close>

text \<open>
  The mean over the batch, the frames and the first \<open>K\<close> entries of each frame of
  \<open>g (target entry) (output entry)\<close>.
\<close>

definition mean_over :: "(real \<Rightarrow> real \<Rightarrow> real) \<Rightarrow> tensor3 \<Rightarrow> tensor3 \<Rightarrow> nat \<Rightarrow> nat \<Rightarrow> nat \<Rightarrow> real" where
  "mean_over g t y N T K =
     (\<Sum>b<N. \<Sum>i<T. \<Sum>f<K. g (t ! b ! i ! f) (y ! b ! i ! f)) / real (N * T * K)"

definition l2_norm :: "vec \<Rightarrow> real" where
  "l2_norm v = sqrt (\<Sum>i<length v. (v ! i) ^ 2)"

text \<open>
  The global norm of a set of gradients, in the words of the specification their
  "combined vector norm": the square root of the sum of the squared L2 norms of the
  gradients there are (\<^verbatim>\<open>None\<close> stands for no gradient).
\<close>

definition combined_norm :: "vec option list \<Rightarrow> real" where
  "combined_norm ts = sqrt (\<Sum>t\<leftarrow>List.map_filter id ts. (l2_norm t) ^ 2)"

subsection \<open>The decoding loop\<close>

text \<open>
  A decoding helper (\<^verbatim>\<open>tf.contrib.seq2seq.Helper\<close>): \<open>h_initialize\<close> gives the
  initial finished flags, one per batch entry, and the first inputs; \<open>next_inputs\<close>
  gives, from the time and the outputs of the step, the finished flags and the next
  inputs.  A decoder cell: its call on the inputs and the state, and its zero state
  for a batch size.
\<close>

record helper =
  h_initialize :: "bool list \<times> mat"
  next_inputs :: "nat \<Rightarrow> mat \<Rightarrow> bool list \<times> mat"

record 'st cell =
  call :: "mat \<Rightarrow> 'st \<Rightarrow> mat \<times> 'st"
  zero_state :: "nat \<Rightarrow> 'st"

text \<open>
  The loop of \<^verbatim>\<open>tf.contrib.seq2seq.dynamic_decode\<close> over a \<^verbatim>\<open>BasicDecoder\<close>:
  while some batch entry is not finished, run the cell, ask the helper, write the
  outputs at \<open>time\<close>, and mark everything finished once
  \<open>time + 1 >= maximum_iterations\<close>.
\<close>

function decode_loop ::
  "(mat \<Rightarrow> 'st \<Rightarrow> mat \<times> 'st) \<Rightarrow> (nat \<Rightarrow> mat \<Rightarrow> bool list \<times> mat) \<Rightarrow> nat \<Rightarrow>
   nat \<Rightarrow> mat list \<Rightarrow> 'st \<Rightarrow> mat \<Rightarrow> bool list \<Rightarrow> mat list \<times> 'st" where
  "decode_loop stp nxt maximum_iterations time outputs_ta state inp finished =
     (if list_all (\<lambda>f. f) finished then (outputs_ta, state)
      else
        (case stp inp state of (cell_outputs, cell_state) \<Rightarrow>
         (case nxt time cell_outputs of (decoder_finished, next_inp) \<Rightarrow>
            decode_loop stp nxt maximum_iterations (time + 1) (outputs_ta @ [cell_outputs])
              cell_state next_inp
              (map (\<lambda>f. f \<or> maximum_iterations \<le> time + 1)
                 (map2 (\<or>) decoder_finished finished)))))"
  by pat_completeness auto
termination
proof (relation "measure (\<lambda>(stp, nxt, mx, time, outs, st, inp, fin).
                   if list_all (\<lambda>f. f) fin then 0 else Suc (mx - time))")
  show "wf (measure (\<lambda>(stp :: mat \<Rightarrow> 'st \<Rightarrow> mat \<times> 'st, nxt :: nat \<Rightarrow> mat \<Rightarrow> bool list \<times> mat,
                        mx, time, outs :: mat list, st :: 'st, inp :: mat, fin).
                   if list_all (\<lambda>f. f) fin then 0 else Suc (mx - time)))"
    by simp
next
  fix stp :: "mat \<Rightarrow> 'st \<Rightarrow> mat \<times> 'st" and nxt :: "nat \<Rightarrow> mat \<Rightarrow> bool list \<times> mat"
    and mx time :: nat and outs :: "mat list" and st :: 'st and inp :: mat
    and fin :: "bool list" and x :: "mat \<times> 'st" and co cs and y :: "bool list \<times> mat" and df ni
  assume "\<not> list_all (\<lambda>f. f) fin"
  then show "((stp, nxt, mx, time + 1, outs @ [co], cs, ni,
               map (\<lambda>f. f \<or> mx \<le> time + 1) (map2 (\<or>) df fin)),
              (stp, nxt, mx, time, outs, st, inp, fin))
             \<in> measure (\<lambda>(stp, nxt, mx, time, outs, st, inp, fin).
                   if list_all (\<lambda>f. f) fin then 0 else Suc (mx - time))"
    by (auto simp: list_all_iff)
qed

declare decode_loop.simps [simp del]

text \<open>
  The outputs of the steps, \<open>[N, D]\<close> each, stacked and transposed to batch-major
  \<open>[N, steps, D]\<close> (\<^verbatim>\<open>output_time_major=False\<close>).
\<close>

definition batch_major :: "nat \<Rightarrow> mat list \<Rightarrow> tensor3" where
  "batch_major N outputs_ta = map (\<lambda>b. map (\<lambda>out. out ! b) outputs_ta) [0..<N]"

definition dynamic_decode :: "'st cell \<Rightarrow> helper \<Rightarrow> 'st \<Rightarrow> nat \<Rightarrow> tensor3 \<times> 'st" where
  "dynamic_decode c h initial_state maximum_iterations =
     (case h_initialize h of (finished, first_inputs) \<Rightarrow>
        (case decode_loop (call c) (next_inputs h) maximum_iterations 0 [] initial_state
                first_inputs (map (\<lambda>f. f \<or> maximum_iterations \<le> 0) finished)
         of (outputs_ta, final_state) \<Rightarrow>
              (batch_major (length finished) outputs_ta, final_state)))"

subsection \<open>initialize\<close>

text \<open>
  \<^verbatim>\<open>tf.reshape(multi_decoder_outputs, [batch_size, -1, hp.num_mels])\<close>: the entries
  of a batch item, in row-major order, cut into frames of \<open>num_mels\<close> entries.  The
  reshape fails when the missing dimension cannot be inferred: a batch of size 0,
  frames of size 0, or a number of entries that is no multiple of the frame size.
\<close>

function chunks :: "nat \<Rightarrow> 'a list \<Rightarrow> 'a list list" where
  "chunks n xs = (if n = 0 \<or> xs = [] then [] else take n xs # chunks n (drop n xs))"
  by pat_completeness auto
termination
  by (relation "measure (\<lambda>(n, xs). length xs)") auto

declare chunks.simps [simp del]

definition reshape_frames :: "nat \<Rightarrow> tensor3 \<Rightarrow> failure + tensor3" where
  "reshape_frames M t =
     (if M = 0 \<or> t = [] \<or> \<not> list_all (\<lambda>item. length (concat item) mod M = 0) t
      then Inl InvalidArgumentError
      else Inr (map (\<lambda>item. chunks M (concat item)) t))"

text \<open>
  \<^verbatim>\<open>tf.layers.dense(x, units)\<close> on the last axis: a new kernel and bias, here
  given by their entries.
\<close>

definition dense :: "(nat \<Rightarrow> nat \<Rightarrow> real) \<Rightarrow> (nat \<Rightarrow> real) \<Rightarrow> nat \<Rightarrow> tensor3 \<Rightarrow> tensor3" where
  "dense weights bias units x =
     map (map (\<lambda>frame.
       map (\<lambda>j. sum_list (map (\<lambda>i. frame ! i * weights i j) [0..<length frame]) + bias j)
         [0..<units])) x"

text \<open>
  The parts of the graph that \<^verbatim>\<open>initialize\<close> takes from other modules of the
  repository (\<^verbatim>\<open>modules\<close>, \<^verbatim>\<open>rnn_wrappers\<close>, \<^verbatim>\<open>attention\<close>,
  \<^verbatim>\<open>helpers\<close>) are parameters:
  \<^item> \<open>encoder is_training inputs input_lengths\<close>: the embedding lookup followed by
    \<^verbatim>\<open>conv_and_lstm(..., scope='encoder')\<close>;
  \<^item> \<open>TacotronDecoderCell is_training encoder_outputs size\<close>: the decoder cell built
    from \<^verbatim>\<open>PrenetCell(is_training)\<close>, the attention over the encoder outputs,
    the two LSTM cells and \<^verbatim>\<open>FrameProjectionCell(size)\<close>;
  \<^item> \<open>TacoTrainingHelper inputs mel_targets num_mels r\<close> and
    \<open>TacoTestHelper batch_size num_mels r\<close>: the two helpers;
  \<^item> \<open>postnet is_training\<close> and \<open>expand is_training\<close> (the second
    \<^verbatim>\<open>conv_and_lstm\<close>), and the weights of the final dense layer.
\<close>

record ('enc, 'st) components =
  encoder :: "bool \<Rightarrow> nat list list \<Rightarrow> nat list \<Rightarrow> 'enc"
  TacotronDecoderCell :: "bool \<Rightarrow> 'enc \<Rightarrow> nat \<Rightarrow> 'st cell"
  TacoTrainingHelper :: "nat list list \<Rightarrow> tensor3 option \<Rightarrow> nat \<Rightarrow> nat \<Rightarrow> failure + helper"
  TacoTestHelper :: "nat \<Rightarrow> nat \<Rightarrow> nat \<Rightarrow> helper"
  postnet :: "bool \<Rightarrow> tensor3 \<Rightarrow> tensor3"
  expand :: "bool \<Rightarrow> tensor3 \<Rightarrow> tensor3"
  dense_kernel :: "nat \<Rightarrow> nat \<Rightarrow> real"
  dense_bias :: "nat \<Rightarrow> real"

text \<open>
  Lines 36 to 122 for a given mode and helper: everything \<^verbatim>\<open>initialize\<close> does
  once \<open>is_training\<close> and the helper are fixed.
\<close>

definition forward ::
  "('enc, 'st) components \<Rightarrow> hparams \<Rightarrow> bool \<Rightarrow> helper \<Rightarrow> nat list list \<Rightarrow> nat list \<Rightarrow>
   tensor3 option \<Rightarrow> tensor3 option \<Rightarrow> failure + tacotron" where
  "forward net hp is_training hlp inps inp_lengths mel_tgts linear_tgts =
     (let batch_size = length inps;
          encoder_outputs = encoder net is_training inps inp_lengths;
          decoder_cell = TacotronDecoderCell net is_training encoder_outputs
                           (num_mels hp * outputs_per_step hp);
          decoder_init_state = zero_state decoder_cell batch_size;
          multi_decoder_outputs =
            fst (dynamic_decode decoder_cell hlp decoder_init_state (max_iters hp))
      in and_then (reshape_frames (num_mels hp) multi_decoder_outputs) (\<lambda>decoder_outs.
         and_then (elementwise (+) decoder_outs (postnet net is_training decoder_outs)) (\<lambda>mel_outs.
           let expand_outputs = expand net is_training mel_outs;
               linear_outs = dense (dense_kernel net) (dense_bias net) (num_freq hp) expand_outputs
           in Inr \<lparr> inputs = inps, input_lengths = inp_lengths,
                    decoder_outputs = decoder_outs, mel_outputs = mel_outs,
                    linear_outputs = linear_outs,
                    linear_targets = linear_tgts, mel_targets = mel_tgts \<rparr>)))"

text \<open>
  \<^verbatim>\<open>initialize\<close>: line 35 fixes the mode, lines 78 to 81 choose the helper.
\<close>

definition initialize ::
  "('enc, 'st) components \<Rightarrow> hparams \<Rightarrow> nat list list \<Rightarrow> nat list \<Rightarrow>
   tensor3 option \<Rightarrow> tensor3 option \<Rightarrow> failure + tacotron" where
  "initialize net hp inps inp_lengths mel_tgts linear_tgts =
     (let is_training = (linear_tgts \<noteq> None);
          batch_size = length inps
      in and_then
           (if is_training
            then TacoTrainingHelper net inps mel_tgts (num_mels hp) (outputs_per_step hp)
            else Inr (TacoTestHelper net batch_size (num_mels hp) (outputs_per_step hp)))
           (\<lambda>hlp. forward net hp is_training hlp inps inp_lengths mel_tgts linear_tgts))"

subsection \<open>The two helpers\<close>

text \<open>
  Modelled from the spec: the target frame a training helper feeds, for the module
  \<^verbatim>\<open>helpers\<close>, which is not among the sources.  Past the end of the targets the
  frame is zero, as the frame at step 0 is (section 4.6).
\<close>

definition frame_at :: "mat \<Rightarrow> nat \<Rightarrow> nat \<Rightarrow> vec" where
  "frame_at item i output_dim = (if i < length item then item ! i else replicate output_dim 0)"

text \<open>
  Modelled from the spec: \<^verbatim>\<open>TacoTrainingHelper\<close> of the module \<^verbatim>\<open>helpers\<close>,
  which is not among the sources.  Section 4.6: teacher-forced, "at step t, the prenet
  input is the ground-truth frame at position t*r from the target mel sequence (or a
  zero frame at t=0); the loop runs for a step count derived from target length / r";
  section 8 fixes the count: the output length is the target length rounded up to a
  multiple of \<open>r\<close>.  Positions count from 1, so the frame fed to step \<open>t\<close> is the last
  frame of the group before.  Targets that are \<^verbatim>\<open>None\<close> cannot be read, and
  \<open>r = 0\<close> has no step count.
\<close>

definition TacoTrainingHelper_spec ::
  "nat list list \<Rightarrow> tensor3 option \<Rightarrow> nat \<Rightarrow> nat \<Rightarrow> failure + helper" where
  "TacoTrainingHelper_spec inps targets output_dim r =
     (case targets of
        None \<Rightarrow> Inl TypeError
      | Some tg \<Rightarrow>
          if r = 0 then Inl ZeroDivisionError
          else
            let batch_size = length inps;
                target_length = (case tg of [] \<Rightarrow> 0 | item # _ \<Rightarrow> length item);
                num_steps = (target_length + r - 1) div r
            in Inr \<lparr> h_initialize =
                       (replicate batch_size False, replicate batch_size (replicate output_dim 0)),
                     next_inputs = (\<lambda>time outputs.
                       (replicate batch_size (num_steps \<le> time + 1),
                        map (\<lambda>item. frame_at item ((time + 1) * r - 1) output_dim) tg)) \<rparr>)"

text \<open>
  Modelled from the spec: \<^verbatim>\<open>TacoTestHelper\<close> of the module \<^verbatim>\<open>helpers\<close>.
  Section 4.6: autoregressive, "the prenet input is the model's own previously
  predicted frame (last of the r frames emitted at t-1, or a zero frame at t=0)";
  a batch entry stops when its "predicted frame magnitude [is] below a threshold".
  The threshold is a parameter; with the threshold 0 no entry ever stops.
\<close>

definition TacoTestHelper_spec :: "real \<Rightarrow> nat \<Rightarrow> nat \<Rightarrow> nat \<Rightarrow> helper" where
  "TacoTestHelper_spec threshold batch_size output_dim r =
     \<lparr> h_initialize =
         (replicate batch_size False, replicate batch_size (replicate output_dim 0)),
       next_inputs = (\<lambda>time outputs.
         (map (\<lambda>row. list_all (\<lambda>x. \<bar>x\<bar> < threshold) row) outputs,
          map (\<lambda>row. drop (length row - output_dim) row) outputs)) \<rparr>"

subsection \<open>Location-sensitive attention\<close>

text \<open>
  Modelled from the spec: the normalisation of \<^verbatim>\<open>LocationSensitiveAttention\<close>
  (module \<^verbatim>\<open>attention\<close>, which is not among the sources).  Section 4.3:
  "normalizes energies to a probability distribution (alignment) over T_in positions
  via softmax".
\<close>

definition softmax :: "vec \<Rightarrow> vec" where
  "softmax e = map (\<lambda>x. exp x / sum_list (map exp e)) e"

text \<open>
  Modelled from the spec: the context vector of section 4.3, the "weighted sum of
  encoder outputs by alignment"; \<open>memory\<close> holds one encoder output per position.
\<close>

definition weighted_sum :: "vec \<Rightarrow> mat \<Rightarrow> vec" where
  "weighted_sum alignment memory =
     (case memory of
        [] \<Rightarrow> []
      | row # _ \<Rightarrow>
          map (\<lambda>j. sum_list (map2 (\<lambda>a r. a * r ! j) alignment memory))
            [0..<length row])"

text \<open>
  Modelled from the spec: one step of \<^verbatim>\<open>LocationSensitiveAttention\<close>, for one
  batch item.  Section 4.3: the unnormalised energies over the \<open>T_in\<close> encoder
  positions combine a content term (the query against the encoder outputs) with a
  location term derived from the cumulative alignment; they are a parameter
  \<open>energies query cumulative\<close>.  The alignment is their softmax, and the new
  cumulative alignment is the previous one plus the alignment.  The step gives the
  context vector, the alignment and the new cumulative alignment.
\<close>

definition attention_step ::
  "(vec \<Rightarrow> vec \<Rightarrow> vec) \<Rightarrow> mat \<Rightarrow> vec \<Rightarrow> vec \<Rightarrow> vec \<times> vec \<times> vec" where
  "attention_step energies memory query cumulative =
     (let alignment = softmax (energies query cumulative);
          context = weighted_sum alignment memory
      in (context, alignment, map2 (+) cumulative alignment))"

text \<open>
  Modelled from the spec: the attention over the decode steps (section 4.3).  The
  cumulative alignment is carried from step to step and every alignment is appended
  to the history.  \<open>attention_run\<close> gives the history and the cumulative alignment
  after the steps whose queries are given.
\<close>

fun attention_run ::
  "(vec \<Rightarrow> vec \<Rightarrow> vec) \<Rightarrow> mat \<Rightarrow> vec list \<Rightarrow> vec \<Rightarrow> vec list \<times> vec" where
  "attention_run energies memory [] cumulative = ([], cumulative)"
| "attention_run energies memory (query # queries) cumulative =
     (case attention_step energies memory query cumulative of
        (context, alignment, cumulative') \<Rightarrow>
          (case attention_run energies memory queries cumulative' of
             (history, final) \<Rightarrow> (alignment # history, final)))"

text \<open>
  Modelled from the spec: the run from step 0, where the cumulative alignment is zero
  on every encoder position (section 4.3).
\<close>

definition attention_decode :: "(vec \<Rightarrow> vec \<Rightarrow> vec) \<Rightarrow> mat \<Rightarrow> vec list \<Rightarrow> vec list \<times> vec" where
  "attention_decode energies memory queries =
     attention_run energies memory queries (replicate (length memory) 0)"

subsection \<open>What the statements ask of the components\<close>

text \<open>
  The shapes the collaborators promise (sections 4.5, 4.7 and 4.8 of the
  specification): on a batch of \<open>N\<close> inputs the decoder cell emits \<open>N\<close> rows of
  \<open>num_mels * outputs_per_step\<close> entries, the postnet keeps the shape of the mel
  sequence, and the expand stage keeps the batch size and the number of frames.
\<close>

definition well_shaped :: "('enc, 'st) components \<Rightarrow> hparams \<Rightarrow> nat \<Rightarrow> bool" where
  "well_shaped net hp N =
     ((\<forall>tr enc inp st. length inp = N \<longrightarrow>
          length (fst (call (TacotronDecoderCell net tr enc (num_mels hp * outputs_per_step hp)) inp st)) = N \<and>
          list_all (\<lambda>row. length row = num_mels hp * outputs_per_step hp)
            (fst (call (TacotronDecoderCell net tr enc (num_mels hp * outputs_per_step hp)) inp st))) \<and>
      (\<forall>tr x T. has_shape x N T (num_mels hp) \<longrightarrow> has_shape (postnet net tr x) N T (num_mels hp)) \<and>
      (\<forall>tr x T. has_shape x N T (num_mels hp) \<longrightarrow> (\<exists>D. has_shape (expand net tr x) N T D)))"

text \<open>
  A helper for a batch of \<open>N\<close>: \<open>N\<close> flags, and \<open>N\<close> rows of inputs whenever the
  step gave \<open>N\<close> rows of outputs.
\<close>

definition helper_for :: "helper \<Rightarrow> nat \<Rightarrow> bool" where
  "helper_for h N =
     (length (fst (h_initialize h)) = N \<and> length (snd (h_initialize h)) = N \<and>
      (\<forall>time out. length out = N \<longrightarrow> length (snd (next_inputs h time out)) = N))"

text \<open>The number of steps the decoding loop of \<^verbatim>\<open>initialize\<close> runs.\<close>

definition decode_steps ::
  "('enc, 'st) components \<Rightarrow> hparams \<Rightarrow> bool \<Rightarrow> helper \<Rightarrow> nat list list \<Rightarrow> nat list \<Rightarrow> nat" where
  "decode_steps net hp is_training hlp inps inp_lengths =
     (let decoder_cell = TacotronDecoderCell net is_training (encoder net is_training inps inp_lengths)
                           (num_mels hp * outputs_per_step hp)
      in length (fst (decode_loop (call decoder_cell) (next_inputs hlp) (max_iters hp) 0 []
                        (zero_state decoder_cell (length inps)) (snd (h_initialize hlp))
                        (map (\<lambda>f. f \<or> max_iters hp \<le> 0) (fst (h_initialize hlp))))))"

subsection \<open>A small configuration for concrete runs\<close>

definition hp0 :: hparams where
  "hp0 = \<lparr> num_mels = 2, outputs_per_step = 2, num_freq = 4, max_iters = 3,
           sample_rate = 8000, max_abs_value = 4, symmetric_mels = True,
           initial_learning_rate = 2, learning_rate_decay_halflife = 1 \<rparr>"

definition m0 :: tacotron where
  "m0 = \<lparr> inputs = [[1, 2, 0]], input_lengths = [2],
           decoder_outputs = [[[0, 0], [0, 0]]],
           mel_outputs = [[[1, 1], [1, 1]]],
           linear_outputs = [[[0, 0, 0, 0], [0, 0, 0, 0]]],
           linear_targets = Some [[[1, 2, 3, 4], [1, 2, 3, 4]]],
           mel_targets = Some [[[1, 2], [3, 4]]] \<rparr>"

definition vars0 :: "(string \<times> vec) list" where
  "vars0 = [(''dense/kernel:0'', [3, 4]), (''dense/bias:0'', [1])]"

text \<open>
  A network for concrete runs: the cell emits zero frames and keeps no state, the
  postnet residual is 1 everywhere, the expand stage is the identity, the dense layer
  has zero weights, and the test helper never stops.
\<close>

definition net0 :: "(unit, unit) components" where
  "net0 = \<lparr> encoder = (\<lambda>is_training inps lens. ()),
            TacotronDecoderCell = (\<lambda>is_training enc size.
              \<lparr> call = (\<lambda>inp st. (map (\<lambda>row. replicate size 0) inp, st)),
                zero_state = (\<lambda>batch_size. ()) \<rparr>),
            TacoTrainingHelper = TacoTrainingHelper_spec,
            TacoTestHelper = TacoTestHelper_spec 0,
            postnet = (\<lambda>is_training x. map (map (map (\<lambda>v. 1))) x),
            expand = (\<lambda>is_training x. x),
            dense_kernel = (\<lambda>i j. 0),
            dense_bias = (\<lambda>j. 0) \<rparr>"

definition long_targets :: tensor3 where
  "long_targets = [[[1, 2], [3, 4], [1, 2], [3, 4], [1, 2], [3, 4], [1, 2], [3, 4]]]"

definition long_linear_targets :: tensor3 where
  "long_linear_targets = map (map (\<lambda>frame. [1, 2, 3, 4])) long_targets"

section \<open>Properties\<close>

subsection \<open>Gradient clipping\<close>

lemma l2_loss_scale: "l2_loss (map (\<lambda>v. v * s) t) = s ^ 2 * l2_loss t"
proof -
  have "sum_list (map (\<lambda>x. x ^ 2) (map (\<lambda>v. v * s) t)) = s ^ 2 * sum_list (map (\<lambda>x. x ^ 2) t)"
    by (induction t) (simp_all add: power_mult_distrib algebra_simps)
  then show ?thesis by (simp add: l2_loss_def)
qed

lemma l2_loss_nonneg: "0 \<le> l2_loss t"
proof -
  have "0 \<le> sum_list (map (\<lambda>x. x ^ 2) t)"
    by (rule sum_list_nonneg) auto
  then show ?thesis by (simp add: l2_loss_def)
qed

lemma sum_l2_nonneg: "0 \<le> sum_list (map l2_loss ts)"
  by (rule sum_list_nonneg) (auto simp: l2_loss_nonneg)

lemma map_filter_scale:
  "List.map_filter id (map (map_option f) ts) = map f (List.map_filter id ts)"
  by (induction ts) (auto simp: List.map_filter_def split: option.splits)

lemma sum_l2_scale:
  "sum_list (map l2_loss (map (map (\<lambda>v. v * s)) ts)) = s ^ 2 * sum_list (map l2_loss ts)"
  by (induction ts) (simp_all add: l2_loss_scale algebra_simps)

lemma global_norm_nonneg: "0 \<le> global_norm ts"
  unfolding global_norm_def by (simp add: sum_l2_nonneg)

lemma global_norm_scale:
  "global_norm (map (map_option (map (\<lambda>v. v * s))) ts) = \<bar>s\<bar> * global_norm ts"
proof -
  have "global_norm (map (map_option (map (\<lambda>v. v * s))) ts)
      = sqrt (s ^ 2 * (sum_list (map l2_loss (List.map_filter id ts)) * 2))"
    unfolding global_norm_def map_filter_scale sum_l2_scale by (simp add: mult.assoc)
  also have "\<dots> = \<bar>s\<bar> * global_norm ts"
    by (simp add: real_sqrt_mult global_norm_def)
  finally show ?thesis .
qed

lemma clip_scale_one:
  "clip_scale n 1 = (if n \<le> 1 then 1 else 1 / n)" if "0 \<le> n"
  using that by (auto simp: clip_scale_def min_def field_simps)

lemma map_scale_one: "map (map_option (map (\<lambda>v. v * (1::real)))) ts = ts"
proof -
  have "map_option (map (\<lambda>v. v * (1::real))) = id"
    by (rule ext) (simp add: option.map_ident)
  then show ?thesis by simp
qed

lemma clipped_norm:
  "global_norm (fst (clip_by_global_norm ts 1)) = min (global_norm ts) 1"
proof -
  let ?n = "global_norm ts"
  have n0: "0 \<le> ?n" by (rule global_norm_nonneg)
  have "global_norm (fst (clip_by_global_norm ts 1)) = \<bar>clip_scale ?n 1\<bar> * ?n"
    by (simp add: clip_by_global_norm_def Let_def global_norm_scale)
  also have "\<dots> = min ?n 1"
    using n0 by (auto simp: clip_scale_one min_def)
  finally show ?thesis .
qed

lemma clipped_unchanged:
  "global_norm ts \<le> 1 \<Longrightarrow> fst (clip_by_global_norm ts 1) = ts"
proof -
  assume "global_norm ts \<le> 1"
  then have "clip_scale (global_norm ts) 1 = 1"
    using global_norm_nonneg [of ts] by (simp add: clip_scale_one)
  then show ?thesis
    unfolding clip_by_global_norm_def Let_def fst_conv by (simp only: map_scale_one)
qed

lemma add_optimizer_Inr:
  assumes "add_optimizer hp gav g = Inr opt"
  shows "gradients opt = map fst gav"
    and "map fst (optimize opt) = fst (clip_by_global_norm (map fst gav) 1)"
    and "map snd (optimize opt) = map snd gav"
    and "exponential_decay (initial_learning_rate hp) g (learning_rate_decay_halflife hp) 0.5
           = Inr (learning_rate opt)"
  using assms
  by (auto simp: add_optimizer_def Let_def clip_by_global_norm_def
           split: sum.splits if_splits)

lemma add_optimizer_total:
  assumes "learning_rate_decay_halflife hp \<noteq> 0" "\<exists>g v. (Some g, v) \<in> set gav"
  shows "\<exists>opt. add_optimizer hp gav g = Inr opt"
proof -
  from assms(2) obtain gr v where m: "(Some gr, v) \<in> set gav" by blast
  then have ne: "gav \<noteq> []" by auto
  from m have "Some gr \<in> set (map fst gav)" by force
  then have "\<not> list_all (\<lambda>g. g = None) (fst (clip_by_global_norm (map fst gav) 1))"
    by (force simp: clip_by_global_norm_def Let_def list_all_iff)
  with ne assms(1) show ?thesis
    by (simp add: add_optimizer_def exponential_decay_def Let_def)
qed

lemma sqrt25: "sqrt 25 = 5"
  by (rule real_sqrt_unique) simp_all

lemma global_norm_3_4: "global_norm [Some [3, 4]] = 5"
  by (simp add: global_norm_def l2_loss_def List.map_filter_def sqrt25)

lemma global_norm_small: "global_norm [Some [3 / 5, 4 / 5], None] = 1"
  by (simp add: global_norm_def l2_loss_def List.map_filter_def power_divide)

lemma add_optimizer_large:
  "add_optimizer hp0 [(Some [3, 4], ''w'')] 0 =
     Inr \<lparr> learning_rate = 2, gradients = [Some [3, 4]],
           optimize = [(Some [3 / 5, 4 / 5], ''w'')] \<rparr>"
  by (simp add: add_optimizer_def hp0_def exponential_decay_def clip_by_global_norm_def
      global_norm_3_4 clip_scale_def Let_def)

lemma add_optimizer_small:
  "add_optimizer hp0 [(Some [3 / 5, 4 / 5], ''w''), (None, ''b'')] 1 =
     Inr \<lparr> learning_rate = 1, gradients = [Some [3 / 5, 4 / 5], None],
           optimize = [(Some [3 / 5, 4 / 5], ''w''), (None, ''b'')] \<rparr>"
  by (simp add: add_optimizer_def hp0_def exponential_decay_def clip_by_global_norm_def
      global_norm_small clip_scale_def Let_def)

text \<open>
  Claim C10.  The field \<open>gradients\<close> holds the gradients as
  \<^verbatim>\<open>compute_gradients\<close> returned them, while the update operation receives
  the result of \<^verbatim>\<open>clip_by_global_norm\<close> paired with the same variables.
\<close>

theorem stored_gradients_unclipped:
  assumes "learning_rate_decay_halflife hp \<noteq> 0" and "\<exists>g v. (Some g, v) \<in> set gav"
  shows "\<exists>opt. add_optimizer hp gav step = Inr opt \<and>
           gradients opt = map fst gav \<and>
           optimize opt = zip (fst (clip_by_global_norm (map fst gav) 1)) (map snd gav)"
proof -
  from add_optimizer_total [OF assms] obtain opt where r: "add_optimizer hp gav step = Inr opt"
    by blast
  note f = add_optimizer_Inr [OF r]
  have "optimize opt = zip (map fst (optimize opt)) (map snd (optimize opt))"
    by (simp add: zip_map_fst_snd)
  with f r show ?thesis by auto
qed

theorem stored_gradients_unclipped_witness:
  "\<exists>opt. add_optimizer hp0 [(Some [3, 4], ''w'')] 0 = Inr opt \<and>
      gradients opt = [Some [3, 4]] \<and> optimize opt = [(Some [3 / 5, 4 / 5], ''w'')] \<and>
      map fst (optimize opt) \<noteq> gradients opt"
proof -
  have h: "learning_rate_decay_halflife hp0 \<noteq> 0" by (simp add: hp0_def)
  have "\<exists>g v. (Some g, v) \<in> set [(Some [3, 4 :: real], ''w'')]" by auto
  from stored_gradients_unclipped [OF h this, of 0]
  obtain opt where o: "add_optimizer hp0 [(Some [3, 4], ''w'')] 0 = Inr opt"
    and "gradients opt = map fst [(Some [3, 4], ''w'')]"
    by blast
  from o have "opt = \<lparr> learning_rate = 2, gradients = [Some [3, 4]],
           optimize = [(Some [3 / 5, 4 / 5], ''w'')] \<rparr>"
    by (simp add: add_optimizer_large)
  with o show ?thesis by simp
qed

subsection \<open>Learning rate\<close>

text \<open>
  Claim C7.  After \<^verbatim>\<open>add_optimizer(global_step)\<close> the field
  \<open>learning_rate\<close> is \<open>initial_learning_rate * 0.5 ^ (global_step / halflife)\<close>;
  a step count larger by the half-life gives half the rate; and for a positive
  half-life and a non-negative initial rate the rate does not increase with
  the step count.
\<close>

theorem learning_rate_decay:
  assumes "add_optimizer hp gav step = Inr opt" and "add_optimizer hp gav' step' = Inr opt'"
  shows "learning_rate opt =
           initial_learning_rate hp *
             (1 / 2) powr (real_of_int step / learning_rate_decay_halflife hp) \<and>
         (real_of_int step' = real_of_int step + learning_rate_decay_halflife hp \<longrightarrow>
            learning_rate opt' = learning_rate opt / 2) \<and>
         (0 < learning_rate_decay_halflife hp \<and> 0 \<le> initial_learning_rate hp \<and> step \<le> step' \<longrightarrow>
            learning_rate opt' \<le> learning_rate opt)"
proof -
  let ?h = "learning_rate_decay_halflife hp"
  let ?l = "initial_learning_rate hp"
  from add_optimizer_Inr(4) [OF assms(1)]
  have h0: "?h \<noteq> 0" and l: "learning_rate opt = ?l * (1 / 2) powr (real_of_int step / ?h)"
    by (auto simp: exponential_decay_def split: if_splits)
  from add_optimizer_Inr(4) [OF assms(2)]
  have l': "learning_rate opt' = ?l * (1 / 2) powr (real_of_int step' / ?h)"
    by (auto simp: exponential_decay_def split: if_splits)
  have half: "learning_rate opt' = learning_rate opt / 2"
    if "real_of_int step' = real_of_int step + ?h"
  proof -
    have "real_of_int step' / ?h = real_of_int step / ?h + 1"
      using that h0 by (simp add: field_simps)
    then show ?thesis
      by (simp add: l l' powr_add)
  qed
  have mono: "learning_rate opt' \<le> learning_rate opt"
    if "0 < ?h" "0 \<le> ?l" "step \<le> step'"
  proof -
    have "real_of_int step / ?h \<le> real_of_int step' / ?h"
      using that by (simp add: divide_right_mono)
    then have "(1 / 2 :: real) powr (real_of_int step' / ?h) \<le> (1 / 2) powr (real_of_int step / ?h)"
      by (simp add: powr_mono')
    then show ?thesis
      using that(2) by (simp add: l l' mult_left_mono)
  qed
  from l half mono show ?thesis by blast
qed

theorem learning_rate_decay_witness:
  "(\<exists>opt. add_optimizer hp0 [(Some [3, 4], ''w'')] 0 = Inr opt \<and> learning_rate opt = 2) \<and>
   (\<exists>opt'. add_optimizer hp0 [(Some [3 / 5, 4 / 5], ''w''), (None, ''b'')] 1 = Inr opt' \<and>
      learning_rate opt' = 1)"
proof -
  have "(0::real) < learning_rate_decay_halflife hp0 \<and> 0 \<le> initial_learning_rate hp0 \<and> (0::int) \<le> 1"
    by (simp add: hp0_def)
  with learning_rate_decay [OF add_optimizer_large add_optimizer_small]
  show ?thesis
    by (simp add: add_optimizer_large add_optimizer_small)
qed

subsection \<open>Tensors of a given shape\<close>

lemma has_shape_nth:
  "has_shape t N T F \<longleftrightarrow>
     length t = N \<and> (\<forall>b<N. length (t ! b) = T \<and> (\<forall>i<T. length (t ! b ! i) = F))"
  unfolding has_shape_def list_all_length by auto

lemma sum_list_map_nth: "sum_list (map f xs) = (\<Sum>i<length xs. f (xs ! i))"
proof -
  have "sum_list (map f xs) = (\<Sum>i<length (map f xs). map f xs ! i)"
    by (simp only: sum_list_sum_nth atLeast0LessThan)
  also have "\<dots> = (\<Sum>i<length xs. f (xs ! i))"
    by (rule sum.cong) simp_all
  finally show ?thesis .
qed

lemma sum_list_nth: "sum_list xs = (\<Sum>i<length xs. xs ! i)" for xs :: "real list"
  using sum_list_map_nth [of "\<lambda>x. x" xs] by simp

lemma sum_list_concat_map: "sum_list (concat xss) = sum_list (map sum_list xss)"
  for xss :: "real list list"
  by (induction xss) simp_all

lemma nonempty_of_length: "length xs = n \<Longrightarrow> 0 < n \<Longrightarrow> xs \<noteq> []"
  by auto

lemma concat3_sum:
  assumes "has_shape t N T F"
  shows "sum_list (concat (concat t)) = (\<Sum>b<N. \<Sum>i<T. \<Sum>f<F. t ! b ! i ! f)"
proof -
  from assms have len: "length t = N"
    and row: "\<And>b. b < N \<Longrightarrow> length (t ! b) = T"
    and col: "\<And>b i. b < N \<Longrightarrow> i < T \<Longrightarrow> length (t ! b ! i) = F"
    by (simp_all add: has_shape_nth)
  have "sum_list (concat (concat t)) = sum_list (map (\<lambda>m. sum_list (map sum_list m)) t)"
    by (simp add: sum_list_concat_map map_concat comp_def)
  also have "\<dots> = (\<Sum>b<N. sum_list (map sum_list (t ! b)))"
    by (simp add: sum_list_map_nth len)
  also have "\<dots> = (\<Sum>b<N. \<Sum>i<T. sum_list (t ! b ! i))"
    by (rule sum.cong) (simp_all add: sum_list_map_nth row)
  also have "\<dots> = (\<Sum>b<N. \<Sum>i<T. \<Sum>f<F. t ! b ! i ! f)"
    by (intro sum.cong refl) (simp add: sum_list_nth col)
  finally show ?thesis .
qed

lemma length_concat_const:
  "(\<And>x. x \<in> set xss \<Longrightarrow> length x = k) \<Longrightarrow> length (concat xss) = length xss * k"
  by (induction xss) simp_all

lemma concat3_length:
  assumes "has_shape t N T F"
  shows "length (concat (concat t)) = N * T * F"
proof -
  from assms have len: "length t = N"
    and row: "\<And>m. m \<in> set t \<Longrightarrow> length m = T"
    and col: "\<And>m v. m \<in> set t \<Longrightarrow> v \<in> set m \<Longrightarrow> length v = F"
    by (auto simp: has_shape_def list_all_iff)
  have "length (concat t) = N * T"
    using length_concat_const [of t T] row len by simp
  moreover have "length (concat (concat t)) = length (concat t) * F"
    by (rule length_concat_const) (auto dest: col)
  ultimately show ?thesis by simp
qed

lemma reduce_mean_shape:
  assumes "has_shape t N T F" and "0 < N" "0 < T" "0 < F"
  shows "reduce_mean t = Inr ((\<Sum>b<N. \<Sum>i<T. \<Sum>f<F. t ! b ! i ! f) / real (N * T * F))"
proof -
  have "length (concat (concat t)) = N * T * F"
    by (rule concat3_length) fact
  moreover from this assms(2-4) have "concat (concat t) \<noteq> []"
    by (intro nonempty_of_length [of _ "N * T * F"]) simp_all
  ultimately show ?thesis
    by (simp add: reduce_mean_def Let_def concat3_sum [OF assms(1)])
qed


lemma same_shape_has_shape:
  assumes "has_shape a N T F" and "has_shape b N T F"
  shows "same_shape a b"
proof -
  have "map (map length) t = replicate N (replicate T F)" if "has_shape t N T F" for t
  proof (rule nth_equalityI)
    show "length (map (map length) t) = length (replicate N (replicate T F))"
      using that by (simp add: has_shape_nth)
  next
    fix b assume "b < length (map (map length) t)"
    with that have b: "b < N" "length t = N" by (simp_all add: has_shape_nth)
    have "map length (t ! b) = replicate T F"
      using that b by (intro nth_equalityI) (simp_all add: has_shape_nth)
    with b show "map (map length) t ! b = replicate N (replicate T F) ! b"
      by simp
  qed
  with assms show ?thesis by (simp add: same_shape_def)
qed

lemma elementwise_shape:
  assumes "has_shape a N T F" and "has_shape c N T F"
  shows "\<exists>r. elementwise g a c = Inr r \<and> has_shape r N T F \<and>
           (\<forall>b<N. \<forall>i<T. \<forall>f<F. r ! b ! i ! f = g (a ! b ! i ! f) (c ! b ! i ! f))"
proof -
  let ?r = "map2 (map2 (map2 g)) a c"
  from assms have A: "length a = N" "\<And>b. b < N \<Longrightarrow> length (a ! b) = T"
      "\<And>b i. b < N \<Longrightarrow> i < T \<Longrightarrow> length (a ! b ! i) = F"
    and C: "length c = N" "\<And>b. b < N \<Longrightarrow> length (c ! b) = T"
      "\<And>b i. b < N \<Longrightarrow> i < T \<Longrightarrow> length (c ! b ! i) = F"
    by (simp_all add: has_shape_nth)
  have 1: "elementwise g a c = Inr ?r"
    using same_shape_has_shape [OF assms] by (simp add: elementwise_def)
  have 2: "has_shape ?r N T F"
    unfolding has_shape_nth using A C by simp
  have 3: "?r ! b ! i ! f = g (a ! b ! i ! f) (c ! b ! i ! f)" if "b < N" "i < T" "f < F" for b i f
    using that A C by simp
  from 1 2 3 show ?thesis by blast
qed

lemma tf_abs_shape:
  assumes "has_shape t N T F"
  shows "has_shape (tf_abs t) N T F"
    and "b < N \<Longrightarrow> i < T \<Longrightarrow> f < F \<Longrightarrow> tf_abs t ! b ! i ! f = \<bar>t ! b ! i ! f\<bar>"
  using assms by (simp_all add: has_shape_nth tf_abs_def)

lemma slice_shape:
  assumes "has_shape t N T F" and "0 \<le> n"
  shows "has_shape (slice_last_axis n t) N T (min (nat n) F)"
    and "b < N \<Longrightarrow> i < T \<Longrightarrow> f < min (nat n) F \<Longrightarrow> slice_last_axis n t ! b ! i ! f = t ! b ! i ! f"
  using assms by (simp_all add: has_shape_nth slice_last_axis_def slice_stop_def min.commute)

lemma mean_squared_error_shape:
  assumes "has_shape y N T M" and "has_shape p N T M" and "0 < N" "0 < T" "0 < M"
  shows "mean_squared_error (Some y) p = Inr (mean_over (\<lambda>t x. (t - x) ^ 2) y p N T M)"
proof -
  from elementwise_shape [OF assms(2,1), of "\<lambda>p y. (p - y) ^ 2"]
  obtain r where r: "elementwise (\<lambda>p y. (p - y) ^ 2) p y = Inr r" "has_shape r N T M"
    and e: "\<And>b i f. b < N \<Longrightarrow> i < T \<Longrightarrow> f < M \<Longrightarrow> r ! b ! i ! f = (p ! b ! i ! f - y ! b ! i ! f) ^ 2"
    by blast
  have l: "length (concat (concat r)) = N * T * M"
    by (rule concat3_length) fact
  with assms(3-5) have ne: "concat (concat r) \<noteq> []"
    by (intro nonempty_of_length [of _ "N * T * M"]) simp_all
  have s: "sum_list (concat (concat r)) = (\<Sum>b<N. \<Sum>i<T. \<Sum>f<M. (y ! b ! i ! f - p ! b ! i ! f) ^ 2)"
    unfolding concat3_sum [OF r(2)]
    by (intro sum.cong refl) (simp add: e power2_commute)
  have "mean_squared_error (Some y) p =
      Inr (sum_list (concat (concat r)) / real (length (concat (concat r))))"
    using ne by (simp add: mean_squared_error_def and_then_def r(1) Let_def)
  then show ?thesis
    by (simp only: s l mean_over_def)
qed

lemma l1_of_shape:
  assumes "has_shape t N T F" and "has_shape y N T F"
  shows "\<exists>l1. l1_of (Some t) y = Inr l1 \<and> has_shape l1 N T F \<and>
           (\<forall>b<N. \<forall>i<T. \<forall>f<F. l1 ! b ! i ! f = \<bar>t ! b ! i ! f - y ! b ! i ! f\<bar>)"
proof -
  from elementwise_shape [OF assms, of "\<lambda>x y. x - y"]
  obtain d where d: "elementwise (\<lambda>x y. x - y) t y = Inr d" "has_shape d N T F"
    and e: "\<And>b i f. b < N \<Longrightarrow> i < T \<Longrightarrow> f < F \<Longrightarrow> d ! b ! i ! f = t ! b ! i ! f - y ! b ! i ! f"
    by blast
  have "l1_of (Some t) y = Inr (tf_abs d)"
    by (simp add: l1_of_def and_then_def d(1))
  moreover have "has_shape (tf_abs d) N T F"
    by (rule tf_abs_shape) fact
  moreover have "\<forall>b<N. \<forall>i<T. \<forall>f<F. tf_abs d ! b ! i ! f = \<bar>t ! b ! i ! f - y ! b ! i ! f\<bar>"
    by (simp add: tf_abs_shape(2) [OF d(2)] e)
  ultimately show ?thesis by blast
qed

lemma linear_loss_of_shape:
  assumes l1: "has_shape l1 N T F"
    and e: "\<And>b i f. b < N \<Longrightarrow> i < T \<Longrightarrow> f < F \<Longrightarrow> l1 ! b ! i ! f = \<bar>t ! b ! i ! f - y ! b ! i ! f\<bar>"
    and pos: "0 < N" "0 < T" "0 < F" "0 < n"
  shows "linear_loss_of l1 n =
           Inr (0.5 * mean_over (\<lambda>t x. \<bar>t - x\<bar>) t y N T F
              + 0.5 * mean_over (\<lambda>t x. \<bar>t - x\<bar>) t y N T (min (nat n) F))"
proof -
  let ?K = "min (nat n) F"
  have K: "0 < ?K" "?K \<le> F" using pos by simp_all
  have n0: "0 \<le> n" using pos by simp
  have a: "reduce_mean l1 = Inr (mean_over (\<lambda>t x. \<bar>t - x\<bar>) t y N T F)"
    unfolding reduce_mean_shape [OF l1 pos(1-3)] mean_over_def
    by (intro arg_cong [where f = Inr] arg_cong2 [where f = "(/)"] sum.cong refl) (simp add: e)
  have b: "reduce_mean (slice_last_axis n l1) = Inr (mean_over (\<lambda>t x. \<bar>t - x\<bar>) t y N T ?K)"
    unfolding reduce_mean_shape [OF slice_shape(1) [OF l1 n0] pos(1,2) K(1)] mean_over_def
    using K(2)
    by (intro arg_cong [where f = Inr] arg_cong2 [where f = "(/)"] sum.cong refl)
       (simp add: e slice_shape(2) [OF l1 n0])
  show ?thesis
    by (simp add: linear_loss_of_def and_then_def a b)
qed

lemma is_in_iff: "is_in p s \<longleftrightarrow> (\<exists>a b. s = a @ p @ b)"
proof (induction s)
  case Nil
  then show ?case by auto
next
  case (Cons c cs)
  have "take (length p) (c # cs) = p \<longleftrightarrow> (\<exists>b. c # cs = p @ b)"
    by (metis append_eq_conv_conj append_take_drop_id)
  moreover have "(\<exists>a b. c # cs = a @ p @ b) \<longleftrightarrow> (\<exists>b. c # cs = p @ b) \<or> (\<exists>a b. cs = a @ p @ b)"
  proof
    assume "\<exists>a b. c # cs = a @ p @ b"
    then obtain a b where ab: "c # cs = a @ p @ b" by blast
    show "(\<exists>b. c # cs = p @ b) \<or> (\<exists>a b. cs = a @ p @ b)"
    proof (cases a)
      case Nil
      with ab show ?thesis by auto
    next
      case (Cons x a')
      with ab have "cs = a' @ p @ b" by simp
      then show ?thesis by blast
    qed
  next
    assume "(\<exists>b. c # cs = p @ b) \<or> (\<exists>a b. cs = a @ p @ b)"
    then show "\<exists>a b. c # cs = a @ p @ b"
    proof
      assume "\<exists>b. c # cs = p @ b"
      then obtain b where "c # cs = [] @ p @ b" by auto
      then show ?thesis by blast
    next
      assume "\<exists>a b. cs = a @ p @ b"
      then obtain a b where "c # cs = (c # a) @ p @ b" by auto
      then show ?thesis by blast
    qed
  qed
  ultimately show ?case using Cons.IH by simp
qed

lemma l2_loss_norm: "l2_loss v = (l2_norm v) ^ 2 / 2"
proof -
  have "0 \<le> (\<Sum>i<length v. (v ! i) ^ 2)"
    by (rule sum_nonneg) simp
  then show ?thesis
    by (simp add: l2_loss_def l2_norm_def sum_list_map_nth)
qed

lemma add_loss_Inr:
  assumes "add_loss hp m vs = Inr L"
  shows "mean_squared_error (mel_targets m) (decoder_outputs m) = Inr (decoder_loss L)"
    and "mean_squared_error (mel_targets m) (mel_outputs m) = Inr (mel_loss L)"
    and "\<exists>l1 n. l1_of (linear_targets m) (linear_outputs m) = Inr l1 \<and> n_priority_freq hp = Inr n \<and>
           linear_loss_of l1 n = Inr (linear_loss L)"
    and "regularization_loss_of hp vs = Inr (regularization_loss L)"
    and "loss L = decoder_loss L + mel_loss L + linear_loss L + regularization_loss L"
  using assms
  by (auto simp: add_loss_def and_then_def split: sum.splits)

lemma add_loss_total:
  assumes "mean_squared_error (mel_targets m) (decoder_outputs m) = Inr dl"
    and "mean_squared_error (mel_targets m) (mel_outputs m) = Inr ml"
    and "l1_of (linear_targets m) (linear_outputs m) = Inr l1"
    and "n_priority_freq hp = Inr n"
    and "linear_loss_of l1 n = Inr ll"
    and "regularization_loss_of hp vs = Inr rl"
  shows "add_loss hp m vs = Inr \<lparr> decoder_loss = dl, mel_loss = ml, linear_loss = ll,
             regularization_loss = rl, loss = dl + ml + ll + rl \<rparr>"
  using assms by (simp add: add_loss_def and_then_def)


subsection \<open>Floats\<close>

lemma pow2_powr: "pow2 k = 2 powr real_of_int k"
  by (simp add: pow2_def powr_int field_simps)




text \<open>The float of a positive real whose binary exponent is known.\<close>

lemma float64_at:
  assumes "0 < x" and "pow2 e \<le> x" and "x < pow2 (e + 1)" and "- 1022 \<le> e"
  shows "float64 x = real_of_int (round_half_even (x / pow2 (e - 52))) * pow2 (e - 52)"
proof -
  have "\<lfloor>log 2 x\<rfloor> = e"
    using assms(1-3) unfolding pow2_powr by (subst floor_log_eq_powr_iff) simp_all
  with assms(1,4) show ?thesis
    by (simp add: float64_def Let_def max_def)
qed

lemma float64_exact_values:
  "float64 8000 = 8000" "float64 4000 = 4000" "float64 (1 / 2) = 1 / 2"
  "float64 4 = 4" "float64 2 = 2"
proof -
  show "float64 8000 = 8000"
    by (subst float64_at [where e = 12]) (simp_all add: round_half_even_def pow2_def)
  show "float64 4000 = 4000"
    by (subst float64_at [where e = 11]) (simp_all add: round_half_even_def pow2_def)
  show "float64 (1 / 2) = 1 / 2"
    by (subst float64_at [where e = "- 1"]) (simp_all add: round_half_even_def pow2_def)
  show "float64 4 = 4"
    by (subst float64_at [where e = 2]) (simp_all add: round_half_even_def pow2_def)
  show "float64 2 = 2"
    by (subst float64_at [where e = 1]) (simp_all add: round_half_even_def pow2_def)
qed

lemma n_priority_freq_cong:
  "sample_rate hp' = sample_rate hp \<Longrightarrow> num_freq hp' = num_freq hp \<Longrightarrow>
   n_priority_freq hp' = n_priority_freq hp"
  by (simp only: n_priority_freq_def)


text \<open>
  Rounding decides the number of priority bins: at the sample rate 4512 with 141
  bins the exact quotient is 125 and the floats give 124; at 196000 with 49 bins the
  exact quotient is 1 and the floats give 0.
\<close>

lemma n_priority_freq_4512:
  "n_priority_freq (hp0\<lparr>sample_rate := 4512, num_freq := 141\<rparr>) = Inr 124"
proof -
  have r: "sample_rate (hp0\<lparr>sample_rate := 4512, num_freq := 141\<rparr>) = 4512"
    "num_freq (hp0\<lparr>sample_rate := 4512, num_freq := 141\<rparr>) = 141"
    by simp_all
  have 1: "float64 4512 = 4512"
    by (subst float64_at [where e = 12]) (simp_all add: round_half_even_def pow2_def)
  have 2: "float64 (4512 * 0.5) = 2256"
    by (subst float64_at [where e = 11]) (simp_all add: round_half_even_def pow2_def)
  have 3: "float64 (2000 / 2256) = 7985105722288113 / 2 ^ 53"
    by (subst float64_at [where e = "- 1"]) (simp_all add: round_half_even_def pow2_def Let_def)
  have 4: "float64 (real 141) = 141"
    by (subst float64_at [where e = 7]) (simp_all add: round_half_even_def pow2_def)
  have 5: "float64 (7985105722288113 / 2 ^ 53 * 141) = 8796093022207999 / 2 ^ 46"
    by (subst float64_at [where e = 6]) (simp_all add: round_half_even_def pow2_def Let_def)
  show ?thesis
    unfolding n_priority_freq_def Let_def r 1 2 3 4 5
    by (simp add: finite64_def py_int_def)
qed

lemma n_priority_freq_196000:
  "n_priority_freq (hp0\<lparr>sample_rate := 196000, num_freq := 49\<rparr>) = Inr 0"
proof -
  have r: "sample_rate (hp0\<lparr>sample_rate := 196000, num_freq := 49\<rparr>) = 196000"
    "num_freq (hp0\<lparr>sample_rate := 196000, num_freq := 49\<rparr>) = 49"
    by simp_all
  have 1: "float64 196000 = 196000"
    by (subst float64_at [where e = 17]) (simp_all add: round_half_even_def pow2_def)
  have 2: "float64 (196000 * 0.5) = 98000"
    by (subst float64_at [where e = 16]) (simp_all add: round_half_even_def pow2_def)
  have 3: "float64 (2000 / 98000) = 5882252574524729 / 2 ^ 58"
    by (subst float64_at [where e = "- 6"]) (simp_all add: round_half_even_def pow2_def Let_def)
  have 4: "float64 (real 49) = 49"
    by (subst float64_at [where e = 5]) (simp_all add: round_half_even_def pow2_def)
  have 5: "float64 (5882252574524729 / 2 ^ 58 * 49) = 9007199254740991 / 2 ^ 53"
    by (subst float64_at [where e = "- 1"]) (simp_all add: round_half_even_def pow2_def Let_def)
  show ?thesis
    unfolding n_priority_freq_def Let_def r 1 2 3 4 5
    by (simp add: finite64_def py_int_def)
qed

subsection \<open>The losses\<close>


lemma n_priority_freq_hp0: "n_priority_freq hp0 = Inr 2"
  by (simp add: n_priority_freq_def Let_def hp0_def float64_exact_values finite64_def py_int_def)

lemma regularized_vars0: "regularized vars0 = [[3, 4]]"
  by (simp add: regularized_def vars0_def)

lemma regularization_loss_hp0: "regularization_loss_of hp0 vars0 = Inr (1 / 640000)"
  by (simp add: regularization_loss_of_def reg_weight_of_def and_then_def hp0_def
      regularized_vars0 l2_loss_def)

lemma add_loss_m0:
  "add_loss hp0 m0 vars0 =
     Inr \<lparr> decoder_loss = 15 / 2, mel_loss = 7 / 2, linear_loss = 2,
           regularization_loss = 1 / 640000, loss = 15 / 2 + 7 / 2 + 2 + 1 / 640000 \<rparr>"
proof (rule add_loss_total)
  show "mean_squared_error (mel_targets m0) (decoder_outputs m0) = Inr (15 / 2)"
    by (simp add: m0_def mean_squared_error_def elementwise_def same_shape_def and_then_def)
  show "mean_squared_error (mel_targets m0) (mel_outputs m0) = Inr (7 / 2)"
    by (simp add: m0_def mean_squared_error_def elementwise_def same_shape_def and_then_def)
  show "l1_of (linear_targets m0) (linear_outputs m0) = Inr [[[1, 2, 3, 4], [1, 2, 3, 4]]]"
    by (simp add: m0_def l1_of_def elementwise_def same_shape_def and_then_def tf_abs_def)
  show "n_priority_freq hp0 = Inr 2" by (rule n_priority_freq_hp0)
  show "linear_loss_of [[[1, 2, 3, 4], [1, 2, 3, 4]]] 2 = Inr 2"
    by (simp add: linear_loss_of_def reduce_mean_def slice_last_axis_def slice_stop_def and_then_def)
  show "regularization_loss_of hp0 vars0 = Inr (1 / 640000)" by (rule regularization_loss_hp0)
qed

lemma shapes_m0:
  "has_shape [[[1, 2, 3, 4], [1, 2, 3, 4]]] 1 2 4"
  "has_shape (linear_outputs m0) 1 2 4"
  "has_shape [[[1, 2], [3, 4]]] 1 2 2"
  "has_shape (decoder_outputs m0) 1 2 2"
  "has_shape (mel_outputs m0) 1 2 2"
  by (simp_all add: has_shape_def m0_def)


lemma reg_weight_of_value:
  assumes "max_abs_value hp \<noteq> 0"
  shows "reg_weight_of hp =
           Inr (if symmetric_mels hp then (1 / 10 ^ 6) / (2 * max_abs_value hp)
                else (1 / 10 ^ 6) / max_abs_value hp)"
  using assms by (simp add: reg_weight_of_def)

lemma regularized_filter:
  "regularized vs =
     map snd (filter (\<lambda>(name, v). \<not> (\<exists>a b. name = a @ ''bias'' @ b) \<and>
                                  \<not> (\<exists>a b. name = a @ ''Bias'' @ b)) vs)"
  unfolding regularized_def is_in_iff by (simp only: de_Morgan_disj)

lemma regularization_loss_of_Inr:
  assumes "regularization_loss_of hp vs = Inr x"
  shows "max_abs_value hp \<noteq> 0" and "regularized vs \<noteq> []"
    and "\<exists>w. reg_weight_of hp = Inr w \<and> x = sum_list (map l2_loss (regularized vs)) * w"
  using assms
  by (auto simp: regularization_loss_of_def reg_weight_of_def and_then_def
           split: sum.splits if_splits)

text \<open>
  Claim C3 (as amended).  The field \<open>regularization_loss\<close> is the sum, over the
  trainable variables whose name contains neither \<open>bias\<close> nor \<open>Bias\<close>, of half the
  squared L2 norm of the variable (\<^verbatim>\<open>tf.nn.l2_loss\<close>), times
  \<open>1e-6 / (2 * max_abs_value)\<close> when \<open>symmetric_mels\<close> holds and
  \<open>1e-6 / max_abs_value\<close> otherwise; for the same model and variables the value
  with \<open>symmetric_mels = True\<close> is half the value with \<open>symmetric_mels = False\<close>.
\<close>

theorem regularization_loss_half_squares:
  assumes "add_loss hp m vs = Inr L"
    and "add_loss (hp\<lparr>symmetric_mels := True\<rparr>) m vs = Inr Ls"
    and "add_loss (hp\<lparr>symmetric_mels := False\<rparr>) m vs = Inr Lu"
  shows "regularization_loss L =
           (\<Sum>v\<leftarrow>map snd (filter (\<lambda>(name, v). \<not> (\<exists>a b. name = a @ ''bias'' @ b) \<and>
                                             \<not> (\<exists>a b. name = a @ ''Bias'' @ b)) vs).
               (l2_norm v) ^ 2 / 2)
           * (if symmetric_mels hp then (1 / 10 ^ 6) / (2 * max_abs_value hp)
              else (1 / 10 ^ 6) / max_abs_value hp)
         \<and> regularization_loss Ls = regularization_loss Lu / 2"
proof -
  note r = regularization_loss_of_Inr [OF add_loss_Inr(4) [OF assms(1)]]
  have l2: "map l2_loss xs = map (\<lambda>v. (l2_norm v) ^ 2 / 2) xs" for xs
    by (simp add: l2_loss_norm)
  from r(3) reg_weight_of_value [OF r(1)]
  have a: "regularization_loss L =
      sum_list (map l2_loss (regularized vs))
      * (if symmetric_mels hp then (1 / 10 ^ 6) / (2 * max_abs_value hp)
         else (1 / 10 ^ 6) / max_abs_value hp)"
    by auto
  have m: "max_abs_value (hp\<lparr>symmetric_mels := b\<rparr>) \<noteq> 0" for b
    using r(1) by simp
  from regularization_loss_of_Inr(3) [OF add_loss_Inr(4) [OF assms(2)]]
    reg_weight_of_value [OF m [of True]]
  have s: "regularization_loss Ls =
      sum_list (map l2_loss (regularized vs)) * ((1 / 10 ^ 6) / (2 * max_abs_value hp))"
    by auto
  from regularization_loss_of_Inr(3) [OF add_loss_Inr(4) [OF assms(3)]]
    reg_weight_of_value [OF m [of False]]
  have u: "regularization_loss Lu =
      sum_list (map l2_loss (regularized vs)) * ((1 / 10 ^ 6) / max_abs_value hp)"
    by auto
  have "regularization_loss Ls = regularization_loss Lu / 2"
    by (simp add: s u)
  with a show ?thesis
    by (simp only: l2 regularized_filter)
qed

lemma m0_parts:
  "mean_squared_error (mel_targets m0) (decoder_outputs m0) = Inr (15 / 2)"
  "mean_squared_error (mel_targets m0) (mel_outputs m0) = Inr (7 / 2)"
  "l1_of (linear_targets m0) (linear_outputs m0) = Inr [[[1, 2, 3, 4], [1, 2, 3, 4]]]"
  "linear_loss_of [[[1, 2, 3, 4], [1, 2, 3, 4]]] 2 = Inr 2"
  using add_loss_Inr(1-3) [OF add_loss_m0] n_priority_freq_hp0
  by (auto simp: m0_def l1_of_def elementwise_def same_shape_def and_then_def tf_abs_def)

lemma add_loss_m0_unsymmetric:
  "add_loss (hp0\<lparr>symmetric_mels := False\<rparr>) m0 vars0 =
     Inr \<lparr> decoder_loss = 15 / 2, mel_loss = 7 / 2, linear_loss = 2,
           regularization_loss = 1 / 320000, loss = 15 / 2 + 7 / 2 + 2 + 1 / 320000 \<rparr>"
proof (rule add_loss_total [OF m0_parts(1-3) _ m0_parts(4)])
  show "regularization_loss_of (hp0\<lparr>symmetric_mels := False\<rparr>) vars0 = Inr (1 / 320000)"
    by (simp add: regularization_loss_of_def reg_weight_of_def and_then_def hp0_def
      regularized_vars0 l2_loss_def)
  show "n_priority_freq (hp0\<lparr>symmetric_mels := False\<rparr>) = Inr 2"
    using n_priority_freq_cong [of "hp0\<lparr>symmetric_mels := False\<rparr>" hp0]
    by (simp add: n_priority_freq_hp0)
qed

lemma hp0_symmetric: "hp0\<lparr>symmetric_mels := True\<rparr> = hp0"
  by (simp add: hp0_def)

theorem regularization_loss_half_squares_witness:
  "add_loss hp0 m0 vars0 =
     Inr \<lparr> decoder_loss = 15 / 2, mel_loss = 7 / 2, linear_loss = 2,
           regularization_loss = 1 / 640000, loss = 15 / 2 + 7 / 2 + 2 + 1 / 640000 \<rparr> \<and>
   add_loss (hp0\<lparr>symmetric_mels := False\<rparr>) m0 vars0 =
     Inr \<lparr> decoder_loss = 15 / 2, mel_loss = 7 / 2, linear_loss = 2,
           regularization_loss = 1 / 320000, loss = 15 / 2 + 7 / 2 + 2 + 1 / 320000 \<rparr> \<and>
   (1 / 640000 :: real) = (1 / 320000) / 2 \<and>
   (1 / 640000 :: real) = (\<Sum>v\<leftarrow>[[3, 4]]. (l2_norm v) ^ 2 / 2) * ((1 / 10 ^ 6) / (2 * 4))"
proof -
  have s: "add_loss (hp0\<lparr>symmetric_mels := True\<rparr>) m0 vars0 =
     Inr \<lparr> decoder_loss = 15 / 2, mel_loss = 7 / 2, linear_loss = 2,
           regularization_loss = 1 / 640000, loss = 15 / 2 + 7 / 2 + 2 + 1 / 640000 \<rparr>"
    by (simp only: hp0_symmetric add_loss_m0)
  have f: "map snd (filter (\<lambda>(name, v). \<not> (\<exists>a b. name = a @ ''bias'' @ b) \<and>
                                             \<not> (\<exists>a b. name = a @ ''Bias'' @ b)) vars0) = [[3, 4]]"
    using regularized_vars0 by (simp only: regularized_filter)
  have h: "symmetric_mels hp0" "max_abs_value hp0 = 4"
    by (simp_all add: hp0_def)
  from regularization_loss_half_squares [OF add_loss_m0 s add_loss_m0_unsymmetric]
  have k: "(1 / 640000 :: real) = (1 / 320000) / 2 \<and>
      (1 / 640000 :: real) = (\<Sum>v\<leftarrow>[[3, 4]]. (l2_norm v) ^ 2 / 2) * ((1 / 10 ^ 6) / (2 * 4))"
    unfolding f by (simp add: h)
  show ?thesis
    by (intro conjI add_loss_m0 add_loss_m0_unsymmetric conjunct1 [OF k] conjunct2 [OF k])
qed

lemma sqrt100: "sqrt 100 = 10"
  by (rule real_sqrt_unique) simp_all

text \<open>
  Claim C3 as stated (a coefficient times the sum of the L2 norms) fails: for the
  single variable \<open>[3, 4]\<close>, of norm 5, the loss is \<open>25 / 2\<close> times the weight, and
  for \<open>[6, 8]\<close>, of norm 10, it is 50 times the weight, so no coefficient relates the
  loss to the sum of the norms.
\<close>

theorem regularization_not_l2_norm:
  "regularization_loss_of hp0 [(''w'', [3, 4])] = Inr (1 / 8000000 * (25 / 2)) \<and>
   regularization_loss_of hp0 [(''w'', [6, 8])] = Inr (1 / 8000000 * 50) \<and>
   reg_weight_of hp0 = Inr (1 / 8000000) \<and>
   sum_list (map l2_norm (regularized [(''w'', [3, 4])])) = 5 \<and>
   sum_list (map l2_norm (regularized [(''w'', [6, 8])])) = 10 \<and>
   regularization_loss_of hp0 [(''w'', [3, 4])] \<noteq> Inr (1 / 8000000 * 5) \<and>
   (1 / 8000000 * (25 / 2)) / 5 \<noteq> (1 / 8000000 * 50) / (10 :: real)"
  by (simp add: regularization_loss_of_def reg_weight_of_def and_then_def hp0_def
      regularized_def l2_loss_def l2_norm_def sqrt25 sqrt100 lessThan_Suc)

subsection \<open>The decoding loop\<close>

lemma decode_loop_length:
  "(mx \<le> time \<longrightarrow> list_all (\<lambda>f. f) fin) \<Longrightarrow>
   length (fst (decode_loop stp nxt mx time outs st inp fin)) \<le> length outs + (mx - time)"
proof (induction stp nxt mx time outs st inp fin rule: decode_loop.induct)
  case (1 stp nxt mx time outs st inp fin)
  show ?case
  proof (cases "list_all (\<lambda>f. f) fin")
    case True
    then show ?thesis by (simp add: decode_loop.simps)
  next
    case False
    with "1.prems" have lt: "time < mx" by auto
    obtain co cs where s: "stp inp st = (co, cs)" by (cases "stp inp st")
    obtain df ni where n: "nxt time co = (df, ni)" by (cases "nxt time co")
    let ?fin = "map (\<lambda>f. f \<or> mx \<le> time + 1) (map2 (\<or>) df fin)"
    have "mx \<le> time + 1 \<longrightarrow> list_all (\<lambda>f. f) ?fin"
      by (simp add: list_all_iff)
    from "1.IH" [OF False s [symmetric] n [symmetric] this]
    have "length (fst (decode_loop stp nxt mx (time + 1) (outs @ [co]) cs ni ?fin))
            \<le> length (outs @ [co]) + (mx - (time + 1))" .
    moreover have "decode_loop stp nxt mx time outs st inp fin =
        decode_loop stp nxt mx (time + 1) (outs @ [co]) cs ni ?fin"
      using False s n by (subst decode_loop.simps) simp
    ultimately show ?thesis using lt by simp
  qed
qed


lemma decode_loop_rows:
  "\<lbrakk>\<And>inp st. length inp = N \<Longrightarrow>
      length (fst (stp inp st)) = N \<and> list_all (\<lambda>row. length row = D) (fst (stp inp st));
    \<And>time out. length out = N \<Longrightarrow> length (snd (nxt time out)) = N;
    length inp = N;
    list_all (\<lambda>out. length out = N \<and> list_all (\<lambda>row. length row = D) out) outs\<rbrakk>
   \<Longrightarrow> list_all (\<lambda>out. length out = N \<and> list_all (\<lambda>row. length row = D) out)
         (fst (decode_loop stp nxt mx time outs st inp fin))"
proof (induction stp nxt mx time outs st inp fin rule: decode_loop.induct)
  case (1 stp nxt mx time outs st inp fin)
  note cell = "1.prems"(1) and hlp = "1.prems"(2) and len = "1.prems"(3) and acc = "1.prems"(4)
  show ?case
  proof (cases "list_all (\<lambda>f. f) fin")
    case True
    with acc show ?thesis by (simp add: decode_loop.simps)
  next
    case False
    obtain co cs where s: "stp inp st = (co, cs)" by (cases "stp inp st")
    obtain df ni where n: "nxt time co = (df, ni)" by (cases "nxt time co")
    let ?fin = "map (\<lambda>f. f \<or> mx \<le> time + 1) (map2 (\<or>) df fin)"
    from cell [OF len, of st] s
    have co: "length co = N \<and> list_all (\<lambda>row. length row = D) co" by simp
    with hlp [of co time] n have ni: "length ni = N" by simp
    from co acc
    have outs: "list_all (\<lambda>out. length out = N \<and> list_all (\<lambda>row. length row = D) out) (outs @ [co])"
      by simp
    have "decode_loop stp nxt mx time outs st inp fin =
        decode_loop stp nxt mx (time + 1) (outs @ [co]) cs ni ?fin"
      using False s n by (subst decode_loop.simps) simp
    with "1.IH" [OF False s [symmetric] n [symmetric] cell hlp ni outs]
    show ?thesis by simp
  qed
qed

lemma decode_loop_teacher:
  "\<lbrakk>0 < N;
    \<And>time out. fst (nxt time out) = replicate N (K \<le> time + 1);
    fin = replicate N (mx \<le> time \<or> K \<le> time)\<rbrakk>
   \<Longrightarrow> length (fst (decode_loop stp nxt mx time outs st inp fin))
         = length outs + (min K mx - time)"
proof (induction stp nxt mx time outs st inp fin rule: decode_loop.induct)
  case (1 stp nxt mx time outs st inp fin)
  note N = "1.prems"(1) and flags = "1.prems"(2) and fin = "1.prems"(3)
  show ?case
  proof (cases "list_all (\<lambda>f. f) fin")
    case True
    with fin N have "mx \<le> time \<or> K \<le> time"
      by (cases N) (auto simp: list_all_iff)
    with True show ?thesis by (auto simp: decode_loop.simps)
  next
    case False
    with fin have lt: "time < mx" "time < K"
      by (auto simp: list_all_iff)
    obtain co cs where s: "stp inp st = (co, cs)" by (cases "stp inp st")
    obtain df ni where n: "nxt time co = (df, ni)" by (cases "nxt time co")
    let ?fin = "map (\<lambda>f. f \<or> mx \<le> time + 1) (map2 (\<or>) df fin)"
    from flags [of time co] n have df: "df = replicate N (K \<le> time + 1)" by simp
    have "map2 (\<or>) df fin = replicate N (K \<le> time + 1)"
      using lt unfolding df fin
      by (intro nth_equalityI) simp_all
    then have fin': "?fin = replicate N (mx \<le> time + 1 \<or> K \<le> time + 1)"
      by auto
    have "decode_loop stp nxt mx time outs st inp fin =
        decode_loop stp nxt mx (time + 1) (outs @ [co]) cs ni ?fin"
      using False s n by (subst decode_loop.simps) simp
    with "1.IH" [OF False s [symmetric] n [symmetric] N flags fin']
    have "length (fst (decode_loop stp nxt mx time outs st inp fin))
            = length (outs @ [co]) + (min K mx - (time + 1))" by simp
    moreover from lt have "time < min K mx" by simp
    ultimately show ?thesis by (simp del: min_less_iff_conj)
  qed
qed

subsection \<open>Shapes through initialize\<close>

lemma chunks_shape:
  "0 < M \<Longrightarrow> length xs = k * M \<Longrightarrow>
   length (chunks M xs) = k \<and> list_all (\<lambda>c. length c = M) (chunks M xs)"
proof (induction k arbitrary: xs)
  case 0
  then show ?case by (simp add: chunks.simps)
next
  case (Suc k)
  then have ne: "xs \<noteq> []" by auto
  from Suc.prems have "length (drop M xs) = k * M" by simp
  from Suc.IH [OF Suc.prems(1) this] Suc.prems ne show ?case
    by (subst (1 2) chunks.simps) simp
qed

lemma batch_major_shape:
  assumes "list_all (\<lambda>out. length out = N \<and> list_all (\<lambda>row. length row = D) out) outs"
  shows "has_shape (batch_major N outs) N (length outs) D"
  using assms by (auto simp: has_shape_nth batch_major_def list_all_length)

lemma concat_rows_length:
  "list_all (\<lambda>row. length row = D) rows \<Longrightarrow> length (concat rows) = length rows * D"
  by (rule length_concat_const) (simp add: list_all_iff)

lemma reshape_frames_shape:
  assumes "has_shape t N S (M * r)" and "0 < N" and "0 < M"
  shows "\<exists>d. reshape_frames M t = Inr d \<and> has_shape d N (S * r) M"
proof -
  from assms(1) have len: "length t = N"
    and item: "\<And>item. item \<in> set t \<Longrightarrow> length item = S \<and> list_all (\<lambda>v. length v = M * r) item"
    by (auto simp: has_shape_def list_all_iff)
  have c: "length (concat item) = (S * r) * M" if "item \<in> set t" for item
    using item [OF that] concat_rows_length [of "M * r" item] by (simp add: mult.commute mult.left_commute)
  have ok: "list_all (\<lambda>item. length (concat item) mod M = 0) t"
    by (simp add: list_all_iff c)
  from len assms(2) have ne: "t \<noteq> []" by auto
  have 1: "reshape_frames M t = Inr (map (\<lambda>item. chunks M (concat item)) t)"
    using ok ne assms(3) by (simp add: reshape_frames_def)
  have 2: "has_shape (map (\<lambda>item. chunks M (concat item)) t) N (S * r) M"
    using chunks_shape [OF assms(3) c] len by (simp add: has_shape_def list_all_iff)
  from 1 2 show ?thesis by blast
qed

lemma dense_shape:
  "has_shape x N T D \<Longrightarrow> has_shape (dense w b units x) N T units"
  by (simp add: has_shape_def dense_def list_all_iff)

lemma decode_steps_le: "decode_steps net hp tr hlp inps lens \<le> max_iters hp"
proof -
  have "max_iters hp \<le> 0 \<longrightarrow>
      list_all (\<lambda>f. f) (map (\<lambda>f. f \<or> max_iters hp \<le> 0) (fst (h_initialize hlp)))"
    by (simp add: list_all_iff)
  from decode_loop_length [OF this, of _ _ "[]"] show ?thesis
    by (simp add: decode_steps_def Let_def)
qed

lemma forward_shape:
  assumes ws: "well_shaped net hp N" and h: "helper_for hlp N"
    and N: "length inps = N" "0 < N" and M: "0 < num_mels hp"
  shows "\<exists>m. forward net hp tr hlp inps lens mel lin = Inr m \<and>
           has_shape (decoder_outputs m) N
             (decode_steps net hp tr hlp inps lens * outputs_per_step hp) (num_mels hp) \<and>
           has_shape (mel_outputs m) N
             (decode_steps net hp tr hlp inps lens * outputs_per_step hp) (num_mels hp) \<and>
           has_shape (linear_outputs m) N
             (decode_steps net hp tr hlp inps lens * outputs_per_step hp) (num_freq hp) \<and>
           elementwise (+) (decoder_outputs m) (postnet net tr (decoder_outputs m))
             = Inr (mel_outputs m) \<and>
           mel_targets m = mel \<and> linear_targets m = lin"
proof -
  let ?D = "num_mels hp * outputs_per_step hp"
  let ?c = "TacotronDecoderCell net tr (encoder net tr inps lens) ?D"
  let ?outs = "fst (decode_loop (call ?c) (next_inputs hlp) (max_iters hp) 0 []
                        (zero_state ?c (length inps)) (snd (h_initialize hlp))
                        (map (\<lambda>f. f \<or> max_iters hp \<le> 0) (fst (h_initialize hlp))))"
  let ?S = "decode_steps net hp tr hlp inps lens"
  let ?T = "?S * outputs_per_step hp"
  have S: "length ?outs = ?S"
    by (simp add: decode_steps_def Let_def)
  from h have h1: "length (fst (h_initialize hlp)) = N" and h2: "length (snd (h_initialize hlp)) = N"
    and h3: "\<And>time out. length out = N \<Longrightarrow> length (snd (next_inputs hlp time out)) = N"
    by (simp_all add: helper_for_def)
  from ws have cell: "\<And>inp st. length inp = N \<Longrightarrow>
      length (fst (call ?c inp st)) = N \<and> list_all (\<lambda>row. length row = ?D) (fst (call ?c inp st))"
    and post: "\<And>x T. has_shape x N T (num_mels hp) \<Longrightarrow> has_shape (postnet net tr x) N T (num_mels hp)"
    and ex: "\<And>x T. has_shape x N T (num_mels hp) \<Longrightarrow> \<exists>D. has_shape (expand net tr x) N T D"
    by (simp_all add: well_shaped_def)
  have rows: "list_all (\<lambda>out. length out = N \<and> list_all (\<lambda>row. length row = ?D) out) ?outs"
    by (rule decode_loop_rows [OF cell h3 h2]) simp_all
  have multi: "fst (dynamic_decode ?c hlp (zero_state ?c (length inps)) (max_iters hp))
      = batch_major N ?outs"
    using h1 by (auto simp: dynamic_decode_def split: prod.splits)
  have "has_shape (batch_major N ?outs) N ?S ?D"
    using batch_major_shape [OF rows] S by simp
  from reshape_frames_shape [OF this N(2) M]
  obtain d where d: "reshape_frames (num_mels hp) (batch_major N ?outs) = Inr d"
    and dshape: "has_shape d N ?T (num_mels hp)"
    by blast
  from elementwise_shape [OF dshape post [OF dshape], of "(+)"]
  obtain ml where ml: "elementwise (+) d (postnet net tr d) = Inr ml"
    and mshape: "has_shape ml N ?T (num_mels hp)"
    by blast
  from ex [OF mshape] obtain D' where "has_shape (expand net tr ml) N ?T D'" by blast
  then have lshape: "has_shape (dense (dense_kernel net) (dense_bias net) (num_freq hp)
      (expand net tr ml)) N ?T (num_freq hp)"
    by (rule dense_shape)
  have "forward net hp tr hlp inps lens mel lin =
      Inr \<lparr> inputs = inps, input_lengths = lens, decoder_outputs = d, mel_outputs = ml,
            linear_outputs = dense (dense_kernel net) (dense_bias net) (num_freq hp) (expand net tr ml),
            linear_targets = lin, mel_targets = mel \<rparr>"
    unfolding forward_def Let_def multi d and_then_def by (simp add: ml)
  with dshape mshape lshape ml show ?thesis by simp
qed

subsection \<open>Concrete runs of initialize\<close>

lemma net0_fields:
  "encoder net0 = (\<lambda>is_training inps lens. ())"
  "TacotronDecoderCell net0 = (\<lambda>is_training enc size.
      \<lparr> call = (\<lambda>inp st. (map (\<lambda>row. replicate size 0) inp, st)),
        zero_state = (\<lambda>batch_size. ()) \<rparr>)"
  "TacoTrainingHelper net0 = TacoTrainingHelper_spec"
  "TacoTestHelper net0 = TacoTestHelper_spec 0"
  "postnet net0 = (\<lambda>is_training x. map (map (map (\<lambda>v. 1))) x)"
  "expand net0 = (\<lambda>is_training x. x)"
  "dense_kernel net0 = (\<lambda>i j. 0)"
  "dense_bias net0 = (\<lambda>j. 0)"
  by (simp_all add: net0_def)

lemma hp0_fields:
  "num_mels hp0 = 2" "outputs_per_step hp0 = 2" "num_freq hp0 = 4" "max_iters hp0 = 3"
  "sample_rate hp0 = 8000" "max_abs_value hp0 = 4" "symmetric_mels hp0"
  by (simp_all add: hp0_def)

lemma upt4: "[0..<4] = [0, 1, 2, 3]"
  by (simp add: upt_rec)

lemma replicate4: "replicate 4 x = [x, x, x, x]"
  by (simp add: eval_nat_numeral)

lemma chunks2:
  "chunks 2 [] = []"
  "chunks 2 (a # b # xs) = [a, b] # chunks 2 xs"
  by (subst chunks.simps, simp)+

lemma initialize_net0_training:
  "initialize net0 hp0 [[1, 2, 0]] [2] (Some [[[1, 2], [3, 4]]])
     (Some [[[1, 2, 3, 4], [1, 2, 3, 4]]]) = Inr m0"
  by (simp add: initialize_def forward_def dynamic_decode_def net0_fields hp0_fields
      TacoTrainingHelper_spec_def and_then_def decode_loop.simps batch_major_def
      reshape_frames_def chunks2 elementwise_def same_shape_def dense_def upt4 replicate4 m0_def Let_def)

lemma initialize_net0_inference:
  "initialize net0 hp0 [[1, 2, 0]] [2] mel None =
     Inr \<lparr> inputs = [[1, 2, 0]], input_lengths = [2],
           decoder_outputs = [[[0, 0], [0, 0], [0, 0], [0, 0], [0, 0], [0, 0]]],
           mel_outputs = [[[1, 1], [1, 1], [1, 1], [1, 1], [1, 1], [1, 1]]],
           linear_outputs = [[[0, 0, 0, 0], [0, 0, 0, 0], [0, 0, 0, 0], [0, 0, 0, 0],
                              [0, 0, 0, 0], [0, 0, 0, 0]]],
           linear_targets = None, mel_targets = mel \<rparr>"
  by (simp add: initialize_def forward_def dynamic_decode_def net0_fields hp0_fields
      TacoTestHelper_spec_def and_then_def decode_loop.simps batch_major_def
      reshape_frames_def chunks2 elementwise_def same_shape_def dense_def upt4 replicate4 Let_def)

lemma initialize_net0_long:
  "initialize net0 hp0 [[1, 2, 0]] [2] (Some long_targets) (Some long_linear_targets) =
     Inr \<lparr> inputs = [[1, 2, 0]], input_lengths = [2],
           decoder_outputs = [[[0, 0], [0, 0], [0, 0], [0, 0], [0, 0], [0, 0]]],
           mel_outputs = [[[1, 1], [1, 1], [1, 1], [1, 1], [1, 1], [1, 1]]],
           linear_outputs = [[[0, 0, 0, 0], [0, 0, 0, 0], [0, 0, 0, 0], [0, 0, 0, 0],
                              [0, 0, 0, 0], [0, 0, 0, 0]]],
           linear_targets = Some long_linear_targets, mel_targets = Some long_targets \<rparr>"
  by (simp add: initialize_def forward_def dynamic_decode_def net0_fields hp0_fields
      TacoTrainingHelper_spec_def and_then_def decode_loop.simps batch_major_def
      reshape_frames_def chunks2 elementwise_def same_shape_def dense_def upt4 replicate4 Let_def
      long_targets_def)

lemma well_shaped_net0: "well_shaped net0 hp0 (Suc 0)"
  unfolding well_shaped_def net0_fields hp0_fields
  by (auto simp: has_shape_def list_all_iff)

lemma helper_for_test_spec: "helper_for (TacoTestHelper_spec threshold N M r) N"
  by (simp add: helper_for_def TacoTestHelper_spec_def)

lemma initialize_inference:
  "initialize net hp inps lens mel None =
     forward net hp False (TacoTestHelper net (length inps) (num_mels hp) (outputs_per_step hp))
       inps lens mel None"
  by (simp add: initialize_def and_then_def)

lemma initialize_training:
  "initialize net hp inps lens mel (Some lt) =
     and_then (TacoTrainingHelper net inps mel (num_mels hp) (outputs_per_step hp))
       (\<lambda>hlp. forward net hp True hlp inps lens mel (Some lt))"
  by (simp add: initialize_def)

subsection \<open>The length of the decoded sequence\<close>

text \<open>
  Claim C4.  Without targets, for components of the promised shapes, a non-empty batch
  and \<open>num_mels > 0\<close>, \<^verbatim>\<open>initialize\<close> returns a model whose
  \<open>mel_outputs\<close> has shape \<open>[N, T_out, num_mels]\<close> with
  \<open>T_out \<le> max_iters * outputs_per_step\<close>, whatever the test helper's stopping
  rule is.
\<close>

theorem inference_length_bounded:
  assumes "well_shaped net hp (length inps)"
    and "helper_for (TacoTestHelper net (length inps) (num_mels hp) (outputs_per_step hp)) (length inps)"
    and "inps \<noteq> []" and "0 < num_mels hp"
  shows "\<exists>m T_out. initialize net hp inps lens None None = Inr m \<and>
           has_shape (mel_outputs m) (length inps) T_out (num_mels hp) \<and>
           T_out \<le> max_iters hp * outputs_per_step hp"
proof -
  let ?h = "TacoTestHelper net (length inps) (num_mels hp) (outputs_per_step hp)"
  from assms(3) have N: "0 < length inps" by simp
  from forward_shape [OF assms(1,2) refl N assms(4), of False lens None None]
  obtain m where m: "forward net hp False ?h inps lens None None = Inr m"
    and s: "has_shape (mel_outputs m) (length inps)
              (decode_steps net hp False ?h inps lens * outputs_per_step hp) (num_mels hp)"
    by blast
  have "decode_steps net hp False ?h inps lens * outputs_per_step hp
          \<le> max_iters hp * outputs_per_step hp"
    by (rule mult_le_mono1) (rule decode_steps_le)
  with m s show ?thesis
    unfolding initialize_inference by blast
qed

theorem inference_length_bounded_witness:
  "initialize net0 hp0 [[1, 2, 0]] [2] None None =
     Inr \<lparr> inputs = [[1, 2, 0]], input_lengths = [2],
           decoder_outputs = [[[0, 0], [0, 0], [0, 0], [0, 0], [0, 0], [0, 0]]],
           mel_outputs = [[[1, 1], [1, 1], [1, 1], [1, 1], [1, 1], [1, 1]]],
           linear_outputs = [[[0, 0, 0, 0], [0, 0, 0, 0], [0, 0, 0, 0], [0, 0, 0, 0],
                              [0, 0, 0, 0], [0, 0, 0, 0]]],
           linear_targets = None, mel_targets = None \<rparr> \<and>
   (\<exists>T_out. has_shape [[[1, 1], [1, 1], [1, 1], [1, 1], [1, 1], [1, 1]]] 1 T_out 2 \<and>
      T_out \<le> 3 * 2)"
proof -
  have w: "well_shaped net0 hp0 (length [[1, 2, 0 :: nat]])"
    using well_shaped_net0 by simp
  have h: "helper_for (TacoTestHelper net0 (length [[1, 2, 0 :: nat]]) (num_mels hp0)
      (outputs_per_step hp0)) (length [[1, 2, 0 :: nat]])"
    unfolding net0_fields by (rule helper_for_test_spec)
  have n: "[[1, 2, 0 :: nat]] \<noteq> []" by simp
  have p: "0 < num_mels hp0" by (simp add: hp0_fields)
  from inference_length_bounded [OF w h n p, of "[2]"]
  obtain m T_out where a: "initialize net0 hp0 [[1, 2, 0]] [2] None None = Inr m"
    and b: "has_shape (mel_outputs m) (length [[1, 2, 0 :: nat]]) T_out (num_mels hp0)"
    and c: "T_out \<le> max_iters hp0 * outputs_per_step hp0"
    by blast
  from a [unfolded initialize_net0_inference]
  have "mel_outputs m = [[[1, 1], [1, 1], [1, 1], [1, 1], [1, 1], [1, 1]]]"
    by auto
  with b c have "\<exists>T_out. has_shape [[[1, 1], [1, 1], [1, 1], [1, 1], [1, 1], [1, 1]]] 1 T_out 2 \<and>
      T_out \<le> 3 * 2"
    by (auto simp: hp0_fields)
  with initialize_net0_inference [of None] show ?thesis
    by (intro conjI)
qed

lemma training_helper_spec:
  assumes "has_shape mt N T M" and "length inps = N" and "0 < N" and "0 < r"
  shows "\<exists>hlp. TacoTrainingHelper_spec inps (Some mt) M r = Inr hlp \<and> helper_for hlp N \<and>
           fst (h_initialize hlp) = replicate N False \<and>
           (\<forall>time out. fst (next_inputs hlp time out) = replicate N ((T + r - 1) div r \<le> time + 1))"
proof -
  from assms(1,3) have len: "length mt = N" and T: "length (mt ! 0) = T"
    by (simp_all add: has_shape_nth)
  from len assms(3) obtain item rest where mt: "mt = item # rest"
    by (cases mt) auto
  with T have tl: "(case mt of [] \<Rightarrow> 0 | item # _ \<Rightarrow> length item) = T"
    by simp
  show ?thesis
    using assms(2,4) len
    by (simp add: TacoTrainingHelper_spec_def Let_def tl helper_for_def)
qed

lemma decode_steps_teacher:
  assumes "0 < length inps" and "0 < K"
    and "fst (h_initialize hlp) = replicate (length inps) False"
    and "\<And>time out. fst (next_inputs hlp time out) = replicate (length inps) (K \<le> time + 1)"
  shows "decode_steps net hp tr hlp inps lens = min K (max_iters hp)"
proof -
  have "map (\<lambda>f. f \<or> max_iters hp \<le> 0) (fst (h_initialize hlp))
      = replicate (length inps) (max_iters hp \<le> 0 \<or> K \<le> 0)"
    using assms(2) by (simp add: assms(3))
  from decode_loop_teacher [OF assms(1,4) this, where outs = "[]"] show ?thesis
    by (simp add: decode_steps_def Let_def)
qed

text \<open>
  Claim C5 (as amended).  With mel and linear targets, a non-empty batch, targets of
  length \<open>T > 0\<close>, components of the promised shapes and the training helper of
  the specification, \<^verbatim>\<open>initialize\<close> returns a model with \<open>mel_outputs\<close> of
  shape \<open>[N, T_out, num_mels]\<close> and \<open>linear_outputs\<close> of shape
  \<open>[N, T_out, num_freq]\<close>, where \<open>T_out\<close> is \<open>outputs_per_step\<close> times the smaller
  of \<open>max_iters\<close> and \<open>T / outputs_per_step\<close> rounded up: the target length rounded
  up to a multiple of \<open>outputs_per_step\<close>, capped at
  \<open>max_iters * outputs_per_step\<close>.
\<close>

theorem training_output_shapes:
  assumes "well_shaped net hp (length inps)"
    and "TacoTrainingHelper net = TacoTrainingHelper_spec"
    and "inps \<noteq> []" and "0 < num_mels hp" and "0 < outputs_per_step hp"
    and "has_shape mt (length inps) T (num_mels hp)" and "0 < T"
  shows "\<exists>m. initialize net hp inps lens (Some mt) (Some lt) = Inr m \<and>
           has_shape (mel_outputs m) (length inps)
             (min ((T + outputs_per_step hp - 1) div outputs_per_step hp) (max_iters hp)
                * outputs_per_step hp) (num_mels hp) \<and>
           has_shape (linear_outputs m) (length inps)
             (min ((T + outputs_per_step hp - 1) div outputs_per_step hp) (max_iters hp)
                * outputs_per_step hp) (num_freq hp)"
proof -
  let ?r = "outputs_per_step hp"
  let ?K = "(T + ?r - 1) div ?r"
  from assms(3) have N: "0 < length inps" by simp
  from training_helper_spec [OF assms(6) refl N assms(5)]
  obtain hlp where hlp: "TacoTrainingHelper_spec inps (Some mt) (num_mels hp) ?r = Inr hlp"
    and hf: "helper_for hlp (length inps)"
    and h0: "fst (h_initialize hlp) = replicate (length inps) False"
    and hn: "\<And>time out. fst (next_inputs hlp time out) = replicate (length inps) (?K \<le> time + 1)"
    by blast
  have "?r \<le> T + ?r - 1" using assms(7) by simp
  then have "?r div ?r \<le> ?K" by (rule div_le_mono)
  with assms(5) have K: "0 < ?K" by simp
  have steps: "decode_steps net hp True hlp inps lens = min ?K (max_iters hp)"
    by (rule decode_steps_teacher [OF N K h0 hn])
  from forward_shape [OF assms(1) hf refl N assms(4), of True lens "Some mt" "Some lt"]
  obtain m where "forward net hp True hlp inps lens (Some mt) (Some lt) = Inr m"
    and "has_shape (mel_outputs m) (length inps) (min ?K (max_iters hp) * ?r) (num_mels hp)"
    and "has_shape (linear_outputs m) (length inps) (min ?K (max_iters hp) * ?r) (num_freq hp)"
    unfolding steps by blast
  then show ?thesis
    unfolding initialize_training assms(2) hlp and_then_def by auto
qed

lemma shapes_long:
  "has_shape long_targets 1 8 2" "has_shape long_linear_targets 1 8 4"
  by (simp_all add: long_targets_def long_linear_targets_def has_shape_def)

theorem training_output_shapes_witness:
  "initialize net0 hp0 [[1, 2, 0]] [2] (Some [[[1, 2], [3, 4]]])
     (Some [[[1, 2, 3, 4], [1, 2, 3, 4]]]) = Inr m0 \<and>
   has_shape (mel_outputs m0) 1 2 2 \<and> has_shape (linear_outputs m0) 1 2 4 \<and>
   min ((2 + 2 - 1) div 2) 3 * 2 = (2 :: nat)"
proof -
  have w: "well_shaped net0 hp0 (length [[1, 2, 0 :: nat]])"
    using well_shaped_net0 by simp
  have n: "[[1, 2, 0 :: nat]] \<noteq> []" by simp
  have p: "0 < num_mels hp0" "0 < outputs_per_step hp0" by (simp_all add: hp0_fields)
  have t: "has_shape [[[1, 2], [3, 4]]] (length [[1, 2, 0 :: nat]]) 2 (num_mels hp0)"
    by (simp add: has_shape_def hp0_fields)
  from training_output_shapes [OF w net0_fields(3) n p t, of "[2]" "[[[1, 2, 3, 4], [1, 2, 3, 4]]]"]
  obtain m where a: "initialize net0 hp0 [[1, 2, 0]] [2] (Some [[[1, 2], [3, 4]]])
       (Some [[[1, 2, 3, 4], [1, 2, 3, 4]]]) = Inr m"
    and b: "has_shape (mel_outputs m) (length [[1, 2, 0 :: nat]])
             (min ((2 + outputs_per_step hp0 - 1) div outputs_per_step hp0) (max_iters hp0)
                * outputs_per_step hp0) (num_mels hp0)"
    and c: "has_shape (linear_outputs m) (length [[1, 2, 0 :: nat]])
             (min ((2 + outputs_per_step hp0 - 1) div outputs_per_step hp0) (max_iters hp0)
                * outputs_per_step hp0) (num_freq hp0)"
    by auto
  from a [unfolded initialize_net0_training] have m: "m = m0" by simp
  have k: "min ((2 + 2 - 1) div 2) 3 * 2 = (2 :: nat)" by simp
  from b c have "has_shape (mel_outputs m0) 1 2 2 \<and> has_shape (linear_outputs m0) 1 2 4"
    unfolding m hp0_fields by simp
  with initialize_net0_training k show ?thesis by (intro conjI) simp_all
qed

text \<open>
  Claim C5 as stated fails for targets longer than \<open>max_iters * outputs_per_step\<close>:
  \<^verbatim>\<open>maximum_iterations=hp.max_iters\<close> bounds the loop in training mode too.  With
  \<open>max_iters = 3\<close>, \<open>outputs_per_step = 2\<close> and targets of 8 frames the outputs
  have 6 frames, not 8.
\<close>

theorem training_length_capped:
  "initialize net0 hp0 [[1, 2, 0]] [2] (Some long_targets) (Some long_linear_targets) =
     Inr \<lparr> inputs = [[1, 2, 0]], input_lengths = [2],
           decoder_outputs = [[[0, 0], [0, 0], [0, 0], [0, 0], [0, 0], [0, 0]]],
           mel_outputs = [[[1, 1], [1, 1], [1, 1], [1, 1], [1, 1], [1, 1]]],
           linear_outputs = [[[0, 0, 0, 0], [0, 0, 0, 0], [0, 0, 0, 0], [0, 0, 0, 0],
                              [0, 0, 0, 0], [0, 0, 0, 0]]],
           linear_targets = Some long_linear_targets, mel_targets = Some long_targets \<rparr> \<and>
   has_shape long_targets 1 8 2 \<and> has_shape long_linear_targets 1 8 4 \<and>
   outputs_per_step hp0 = 2 \<and> max_iters hp0 = 3 \<and>
   has_shape [[[1, 1], [1, 1], [1, 1], [1, 1], [1, 1], [1, 1]]] 1 6 2 \<and>
   \<not> has_shape [[[1, 1], [1, 1], [1, 1], [1, 1], [1, 1], [1, 1]]] 1 8 2"
  by (intro conjI initialize_net0_long shapes_long hp0_fields(2,4)) (simp_all add: has_shape_def)

subsection \<open>The mode of initialize\<close>

text \<open>
  Claim C2 (as amended).  \<^verbatim>\<open>initialize\<close> runs in training mode (the training
  helper, and \<open>is_training = True\<close> for the encoder, the decoder cell, the postnet and
  the expand stage) exactly when \<open>linear_targets\<close> is supplied, and in inference
  mode (the test helper, \<open>is_training = False\<close>) exactly when it is absent;
  \<open>mel_targets\<close> takes no part in the choice and is only handed to the training
  helper.
\<close>

theorem mode_follows_linear_targets:
  "initialize net hp inps lens mel lin =
     (if lin \<noteq> None
      then and_then (TacoTrainingHelper net inps mel (num_mels hp) (outputs_per_step hp))
             (\<lambda>hlp. forward net hp True hlp inps lens mel lin)
      else forward net hp False
             (TacoTestHelper net (length inps) (num_mels hp) (outputs_per_step hp))
             inps lens mel lin)"
  by (simp add: initialize_def and_then_def)

theorem mode_follows_linear_targets_witness:
  "initialize net0 hp0 [[1, 2, 0]] [2] (Some [[[1, 2], [3, 4]]])
       (Some [[[1, 2, 3, 4], [1, 2, 3, 4]]]) =
     and_then (TacoTrainingHelper net0 [[1, 2, 0]] (Some [[[1, 2], [3, 4]]]) 2 2)
       (\<lambda>hlp. forward net0 hp0 True hlp [[1, 2, 0]] [2] (Some [[[1, 2], [3, 4]]])
                (Some [[[1, 2, 3, 4], [1, 2, 3, 4]]])) \<and>
   initialize net0 hp0 [[1, 2, 0]] [2] None None =
     forward net0 hp0 False (TacoTestHelper net0 1 2 2) [[1, 2, 0]] [2] None None"
  using mode_follows_linear_targets [of net0 hp0 "[[1, 2, 0]]" "[2]" "Some [[[1, 2], [3, 4]]]"
      "Some [[[1, 2, 3, 4], [1, 2, 3, 4]]]"]
    mode_follows_linear_targets [of net0 hp0 "[[1, 2, 0]]" "[2]" None None]
  by (simp add: hp0_fields)

lemma training_path_net0:
  "and_then (TacoTrainingHelper net0 [[1, 2, 0]] (Some [[[1, 2], [3, 4]]]) 2 2)
     (\<lambda>hlp. forward net0 hp0 True hlp [[1, 2, 0]] [2] (Some [[[1, 2], [3, 4]]]) None) =
   Inr (m0\<lparr>linear_targets := None\<rparr>)"
  by (simp add: forward_def dynamic_decode_def net0_fields hp0_fields
      TacoTrainingHelper_spec_def and_then_def decode_loop.simps batch_major_def
      reshape_frames_def chunks2 elementwise_def same_shape_def dense_def upt4 replicate4
      m0_def Let_def)

lemma inference_path_net0:
  "forward net0 hp0 False (TacoTestHelper net0 1 2 2) [[1, 2, 0]] [2] mel lin =
     Inr \<lparr> inputs = [[1, 2, 0]], input_lengths = [2],
           decoder_outputs = [[[0, 0], [0, 0], [0, 0], [0, 0], [0, 0], [0, 0]]],
           mel_outputs = [[[1, 1], [1, 1], [1, 1], [1, 1], [1, 1], [1, 1]]],
           linear_outputs = [[[0, 0, 0, 0], [0, 0, 0, 0], [0, 0, 0, 0], [0, 0, 0, 0],
                              [0, 0, 0, 0], [0, 0, 0, 0]]],
           linear_targets = lin, mel_targets = mel \<rparr>"
  by (simp add: forward_def dynamic_decode_def net0_fields hp0_fields
      TacoTestHelper_spec_def and_then_def decode_loop.simps batch_major_def
      reshape_frames_def chunks2 elementwise_def same_shape_def dense_def upt4 replicate4 Let_def)

lemma initialize_net0_no_mel:
  "initialize net0 hp0 [[1, 2, 0]] [2] None (Some [[[1, 2, 3, 4], [1, 2, 3, 4]]]) = Inl TypeError"
  by (simp add: initialize_def net0_fields TacoTrainingHelper_spec_def and_then_def)

text \<open>
  Claim C2 as stated (the presence of the two optional arguments decides) fails when
  one target is given without the other.  With \<open>mel_targets\<close> supplied and
  \<open>linear_targets\<close> absent the call is the inference computation, with the test
  helper, and differs from the training computation on the same arguments; with
  \<open>linear_targets\<close> supplied and \<open>mel_targets\<close> absent it is the training
  computation, and differs from the inference computation.
\<close>

theorem mel_targets_alone_run_inference:
  "initialize net0 hp0 [[1, 2, 0]] [2] (Some [[[1, 2], [3, 4]]]) None =
     forward net0 hp0 False (TacoTestHelper net0 1 2 2) [[1, 2, 0]] [2]
       (Some [[[1, 2], [3, 4]]]) None \<and>
   initialize net0 hp0 [[1, 2, 0]] [2] (Some [[[1, 2], [3, 4]]]) None \<noteq>
     and_then (TacoTrainingHelper net0 [[1, 2, 0]] (Some [[[1, 2], [3, 4]]]) 2 2)
       (\<lambda>hlp. forward net0 hp0 True hlp [[1, 2, 0]] [2] (Some [[[1, 2], [3, 4]]]) None) \<and>
   initialize net0 hp0 [[1, 2, 0]] [2] None (Some [[[1, 2, 3, 4], [1, 2, 3, 4]]]) =
     and_then (TacoTrainingHelper net0 [[1, 2, 0]] None 2 2)
       (\<lambda>hlp. forward net0 hp0 True hlp [[1, 2, 0]] [2] None
                (Some [[[1, 2, 3, 4], [1, 2, 3, 4]]])) \<and>
   initialize net0 hp0 [[1, 2, 0]] [2] None (Some [[[1, 2, 3, 4], [1, 2, 3, 4]]]) \<noteq>
     forward net0 hp0 False (TacoTestHelper net0 1 2 2) [[1, 2, 0]] [2] None
       (Some [[[1, 2, 3, 4], [1, 2, 3, 4]]])"
proof (intro conjI)
  show "initialize net0 hp0 [[1, 2, 0]] [2] (Some [[[1, 2], [3, 4]]]) None =
     forward net0 hp0 False (TacoTestHelper net0 1 2 2) [[1, 2, 0]] [2]
       (Some [[[1, 2], [3, 4]]]) None"
    by (simp add: initialize_inference hp0_fields)
  show "initialize net0 hp0 [[1, 2, 0]] [2] (Some [[[1, 2], [3, 4]]]) None \<noteq>
     and_then (TacoTrainingHelper net0 [[1, 2, 0]] (Some [[[1, 2], [3, 4]]]) 2 2)
       (\<lambda>hlp. forward net0 hp0 True hlp [[1, 2, 0]] [2] (Some [[[1, 2], [3, 4]]]) None)"
    unfolding training_path_net0 initialize_net0_inference by (simp add: m0_def)
  show "initialize net0 hp0 [[1, 2, 0]] [2] None (Some [[[1, 2, 3, 4], [1, 2, 3, 4]]]) =
     and_then (TacoTrainingHelper net0 [[1, 2, 0]] None 2 2)
       (\<lambda>hlp. forward net0 hp0 True hlp [[1, 2, 0]] [2] None
                (Some [[[1, 2, 3, 4], [1, 2, 3, 4]]]))"
    by (simp add: initialize_training hp0_fields)
  show "initialize net0 hp0 [[1, 2, 0]] [2] None (Some [[[1, 2, 3, 4], [1, 2, 3, 4]]]) \<noteq>
     forward net0 hp0 False (TacoTestHelper net0 1 2 2) [[1, 2, 0]] [2] None
       (Some [[[1, 2, 3, 4], [1, 2, 3, 4]]])"
    unfolding inference_path_net0 initialize_net0_no_mel by simp
qed

subsection \<open>The total loss\<close>

lemma has_shape_lengths:
  "has_shape t N T F \<longleftrightarrow> map (map length) t = replicate N (replicate T F)"
proof
  assume h: "has_shape t N T F"
  show "map (map length) t = replicate N (replicate T F)"
  proof (rule nth_equalityI)
    show "length (map (map length) t) = length (replicate N (replicate T F))"
      using h by (simp add: has_shape_nth)
  next
    fix b assume "b < length (map (map length) t)"
    with h have b: "b < N" "length t = N" by (simp_all add: has_shape_nth)
    have "map length (t ! b) = replicate T F"
      using h b by (intro nth_equalityI) (simp_all add: has_shape_nth)
    with b show "map (map length) t ! b = replicate N (replicate T F) ! b"
      by simp
  qed
next
  assume e: "map (map length) t = replicate N (replicate T F)"
  then have "length (map (map length) t) = N" by simp
  then have len: "length t = N" by simp
  have row: "map length (t ! b) = replicate T F" if "b < N" for b
  proof -
    from that len have "map (map length) t ! b = map length (t ! b)" by simp
    with e that show ?thesis by simp
  qed
  have "length (t ! b) = T \<and> (\<forall>i<T. length (t ! b ! i) = F)" if "b < N" for b
  proof -
    from row [OF that] have "length (map length (t ! b)) = T" by simp
    then have l: "length (t ! b) = T" by simp
    have "length (t ! b ! i) = F" if "i < T" for i
    proof -
      from that l have "map length (t ! b) ! i = length (t ! b ! i)" by simp
      with row [OF \<open>b < N\<close>] that show ?thesis by simp
    qed
    with l show ?thesis by blast
  qed
  with len show "has_shape t N T F"
    by (simp add: has_shape_nth)
qed

lemma elementwise_Inr_shape:
  assumes "elementwise g a c = Inr r" and "has_shape a N T F"
  shows "has_shape c N T F" and "has_shape r N T F"
proof -
  from assms(1) have "same_shape a c"
    by (simp add: elementwise_def split: if_splits)
  with assms(2) show c: "has_shape c N T F"
    by (simp add: has_shape_lengths same_shape_def)
  from elementwise_shape [OF assms(2) c, of g] assms(1) show "has_shape r N T F"
    by auto
qed

lemma forward_Inr:
  assumes "forward net hp tr hlp inps lens mel lin = Inr m"
  shows "elementwise (+) (decoder_outputs m) (postnet net tr (decoder_outputs m))
           = Inr (mel_outputs m)"
    and "mel_targets m = mel" and "linear_targets m = lin"
  using assms
  by (auto simp: forward_def Let_def and_then_def split: sum.splits)

lemma initialize_Inr:
  assumes "initialize net hp inps lens mel (Some lt) = Inr m"
  shows "elementwise (+) (decoder_outputs m) (postnet net True (decoder_outputs m))
           = Inr (mel_outputs m)"
    and "mel_targets m = mel" and "linear_targets m = Some lt"
proof -
  from assms obtain hlp where "forward net hp True hlp inps lens mel (Some lt) = Inr m"
    by (auto simp: initialize_training and_then_def split: sum.splits)
  from forward_Inr [OF this]
  show "elementwise (+) (decoder_outputs m) (postnet net True (decoder_outputs m))
           = Inr (mel_outputs m)"
    and "mel_targets m = mel" and "linear_targets m = Some lt"
    by simp_all
qed

lemma regularization_loss_of_total:
  assumes "max_abs_value hp \<noteq> 0" and "regularized vs \<noteq> []"
  shows "\<exists>rl. regularization_loss_of hp vs = Inr rl"
  using assms by (simp add: regularization_loss_of_def reg_weight_of_def and_then_def)

text \<open>
  Claim C9.  After \<^verbatim>\<open>initialize\<close> with targets, for targets and outputs of one
  shape and a configuration in which every term is a number (a positive
  \<open>n_priority_freq\<close>, a regularization weight, a variable to regularize),
  \<^verbatim>\<open>add_loss\<close> returns with \<open>loss = decoder_loss + mel_loss + linear_loss + regularization_loss\<close>,
  where \<open>decoder_loss\<close> is the mean squared error between the mel targets and
  \<open>decoder_outputs\<close> (the output before the postnet) and \<open>mel_loss\<close> the mean
  squared error between the mel targets and \<open>mel_outputs\<close>, which is
  \<open>decoder_outputs\<close> plus the postnet residual.
\<close>

theorem total_loss_sum:
  assumes init: "initialize net hp inps lens (Some mt) (Some lt) = Inr m"
    and mel: "has_shape mt N T M" "has_shape (decoder_outputs m) N T M"
    and lin: "has_shape lt N T F" "has_shape (linear_outputs m) N T F"
    and pos: "0 < N" "0 < T" "0 < M" "0 < F"
    and npf: "n_priority_freq hp = Inr n" "0 < n"
    and reg: "max_abs_value hp \<noteq> 0" "regularized vs \<noteq> []"
  shows "\<exists>L. add_loss hp m vs = Inr L \<and>
           loss L = decoder_loss L + mel_loss L + linear_loss L + regularization_loss L \<and>
           decoder_loss L = mean_over (\<lambda>t x. (t - x) ^ 2) mt (decoder_outputs m) N T M \<and>
           mel_loss L = mean_over (\<lambda>t x. (t - x) ^ 2) mt (mel_outputs m) N T M \<and>
           elementwise (+) (decoder_outputs m) (postnet net True (decoder_outputs m))
             = Inr (mel_outputs m)"
proof -
  note f = initialize_Inr [OF init]
  have ms: "has_shape (mel_outputs m) N T M"
    by (rule elementwise_Inr_shape(2) [OF f(1) mel(2)])
  have dl: "mean_squared_error (mel_targets m) (decoder_outputs m)
      = Inr (mean_over (\<lambda>t x. (t - x) ^ 2) mt (decoder_outputs m) N T M)"
    unfolding f(2) by (rule mean_squared_error_shape [OF mel pos(1-3)])
  have ml: "mean_squared_error (mel_targets m) (mel_outputs m)
      = Inr (mean_over (\<lambda>t x. (t - x) ^ 2) mt (mel_outputs m) N T M)"
    unfolding f(2) by (rule mean_squared_error_shape [OF mel(1) ms pos(1-3)])
  from l1_of_shape [OF lin]
  obtain l1 where l1: "l1_of (linear_targets m) (linear_outputs m) = Inr l1"
    and sh: "has_shape l1 N T F"
    and e: "\<And>b i f. b < N \<Longrightarrow> i < T \<Longrightarrow> f < F \<Longrightarrow>
              l1 ! b ! i ! f = \<bar>lt ! b ! i ! f - linear_outputs m ! b ! i ! f\<bar>"
    unfolding f(3) by blast
  note ll = linear_loss_of_shape [OF sh e pos(1,2,4) npf(2)]
  from regularization_loss_of_total [OF reg]
  obtain rl where rl: "regularization_loss_of hp vs = Inr rl" by blast
  from add_loss_total [OF dl ml l1 npf(1) ll rl] f(1) show ?thesis
    by simp
qed

theorem total_loss_sum_witness:
  "initialize net0 hp0 [[1, 2, 0]] [2] (Some [[[1, 2], [3, 4]]])
     (Some [[[1, 2, 3, 4], [1, 2, 3, 4]]]) = Inr m0 \<and>
   add_loss hp0 m0 vars0 =
     Inr \<lparr> decoder_loss = 15 / 2, mel_loss = 7 / 2, linear_loss = 2,
           regularization_loss = 1 / 640000, loss = 15 / 2 + 7 / 2 + 2 + 1 / 640000 \<rparr> \<and>
   mean_over (\<lambda>t x. (t - x) ^ 2) [[[1, 2], [3, 4]]] (decoder_outputs m0) 1 2 2 = 15 / 2 \<and>
   mean_over (\<lambda>t x. (t - x) ^ 2) [[[1, 2], [3, 4]]] (mel_outputs m0) 1 2 2 = 7 / 2"
proof -
  have npf: "(0 :: int) < 2" by simp
  have reg: "max_abs_value hp0 \<noteq> 0" "regularized vars0 \<noteq> []"
    by (simp_all add: hp0_fields regularized_vars0)
  have pos: "(0 :: nat) < 1" "(0 :: nat) < 2" "(0 :: nat) < 4" by simp_all
  from total_loss_sum [OF initialize_net0_training shapes_m0(3,4,1,2) pos(1,2,2,3)
      n_priority_freq_hp0 npf reg]
  obtain L where a: "add_loss hp0 m0 vars0 = Inr L"
    and d: "decoder_loss L = mean_over (\<lambda>t x. (t - x) ^ 2) [[[1, 2], [3, 4]]] (decoder_outputs m0) 1 2 2"
    and ml: "mel_loss L = mean_over (\<lambda>t x. (t - x) ^ 2) [[[1, 2], [3, 4]]] (mel_outputs m0) 1 2 2"
    by blast
  from a [unfolded add_loss_m0] have "decoder_loss L = 15 / 2" "mel_loss L = 7 / 2"
    by auto
  with d ml initialize_net0_training add_loss_m0 show ?thesis
    by (intro conjI) simp_all
qed

subsection \<open>Attention\<close>

lemma sum_list_exp_pos: "e \<noteq> [] \<Longrightarrow> 0 < sum_list (map exp e)" for e :: "real list"
proof (induction e)
  case Nil
  then show ?case by simp
next
  case (Cons x xs)
  have "0 \<le> sum_list (map exp xs)"
    by (rule sum_list_nonneg) auto
  moreover have "0 < exp x" by simp
  ultimately show ?case by (simp add: add_pos_nonneg)
qed

lemma sum_list_divide: "sum_list (map (\<lambda>x. f x / c) xs) = sum_list (map f xs) / c"
  for c :: real
  by (induction xs) (simp_all add: add_divide_distrib)

lemma softmax_distribution:
  assumes "e \<noteq> []"
  shows "length (softmax e) = length e" and "sum_list (softmax e) = 1"
    and "list_all (\<lambda>p. 0 < p) (softmax e)"
proof -
  from sum_list_exp_pos [OF assms] have pos: "0 < sum_list (map exp e)" .
  show "length (softmax e) = length e" by (simp add: softmax_def)
  show "sum_list (softmax e) = 1"
    using pos by (simp add: softmax_def sum_list_divide)
  show "list_all (\<lambda>p. 0 < p) (softmax e)"
    using pos by (simp add: softmax_def list_all_iff)
qed

lemma attention_run_invariant:
  assumes en: "\<And>q c. length (energies q c) = T_in" and T: "0 < T_in"
  shows "length cum = T_in \<Longrightarrow>
         list_all (\<lambda>a. length a = T_in \<and> sum_list a = 1 \<and> list_all (\<lambda>p. 0 < p) a)
           (fst (attention_run energies memory queries cum)) \<and>
         length (fst (attention_run energies memory queries cum)) = length queries \<and>
         length (snd (attention_run energies memory queries cum)) = T_in \<and>
         (\<forall>i<T_in. snd (attention_run energies memory queries cum) ! i
                    = cum ! i + (\<Sum>a\<leftarrow>fst (attention_run energies memory queries cum). a ! i))"
proof (induction queries arbitrary: cum)
  case Nil
  then show ?case by simp
next
  case (Cons q qs)
  let ?al = "softmax (energies q cum)"
  let ?cum = "map2 (+) cum ?al"
  from en [of q cum] T have ne: "energies q cum \<noteq> []" by auto
  note sm = softmax_distribution [OF ne]
  from sm(1) en have la: "length ?al = T_in" by simp
  with Cons.prems have lc: "length ?cum = T_in" by simp
  have run: "attention_run energies memory (q # qs) cum =
      (?al # fst (attention_run energies memory qs ?cum),
       snd (attention_run energies memory qs ?cum))"
    by (simp add: attention_step_def Let_def split: prod.splits)
  have nth: "?cum ! i = cum ! i + ?al ! i" if "i < T_in" for i
    using that la Cons.prems by simp
  from Cons.IH [OF lc] sm la show ?case
    unfolding run by (simp add: nth add.assoc)
qed

lemma attention_run_Cons:
  "attention_run energies memory (q # qs) cum =
     (softmax (energies q cum)
        # fst (attention_run energies memory qs (map2 (+) cum (softmax (energies q cum)))),
      snd (attention_run energies memory qs (map2 (+) cum (softmax (energies q cum)))))"
  by (simp add: attention_step_def Let_def split: prod.splits)

lemma attention_run_take:
  "fst (attention_run energies memory (take k queries) cum)
     = take k (fst (attention_run energies memory queries cum))"
proof (induction queries arbitrary: k cum)
  case Nil
  then show ?case by simp
next
  case (Cons q qs)
  show ?case
  proof (cases k)
    case 0
    then show ?thesis by simp
  next
    case (Suc j)
    with Cons.IH [of j] show ?thesis
      by (simp add: attention_run_Cons del: attention_run.simps)
  qed
qed

lemma sum_list_take_nth:
  fixes f :: "'a \<Rightarrow> real"
  assumes "t < length xs"
  shows "(\<Sum>a\<leftarrow>take (Suc t) xs. f a) = (\<Sum>s\<le>t. f (xs ! s))"
proof -
  from assms have l: "length (take (Suc t) xs) = Suc t" by simp
  have "(\<Sum>a\<leftarrow>take (Suc t) xs. f a) = (\<Sum>s<Suc t. f (take (Suc t) xs ! s))"
    unfolding sum_list_map_nth l ..
  also have "\<dots> = (\<Sum>s<Suc t. f (xs ! s))"
    by (rule sum.cong) simp_all
  finally show ?thesis by (simp only: lessThan_Suc_atMost)
qed

text \<open>
  Claim C6.  For a non-empty encoder sequence of \<open>T_in\<close> positions and energies
  that have one entry per position, the alignment of every decode step \<open>t\<close> has
  \<open>T_in\<close> positive entries that sum to 1, and the cumulative alignment carried into
  step \<open>t + 1\<close> (the one after the steps \<open>0..t\<close>) is, position by position, the
  sum of the alignments of the steps \<open>0..t\<close>.
\<close>

theorem attention_alignment_invariants:
  assumes "\<And>q c. length (energies q c) = length memory" and "memory \<noteq> []"
    and "attention_decode energies memory queries = (history, cumulative)"
  shows "length history = length queries \<and>
         (\<forall>t<length queries. length (history ! t) = length memory \<and>
            sum_list (history ! t) = 1 \<and> (\<forall>i<length memory. 0 < history ! t ! i) \<and>
            (\<forall>i<length memory.
               snd (attention_decode energies memory (take (Suc t) queries)) ! i
                 = (\<Sum>s\<le>t. history ! s ! i)))"
proof -
  let ?T = "length memory"
  let ?z = "replicate ?T (0 :: real)"
  from assms(2) have T: "0 < ?T" by simp
  have z: "length ?z = ?T" by simp
  from assms(3) have h: "history = fst (attention_run energies memory queries ?z)"
    by (simp add: attention_decode_def)
  note inv = attention_run_invariant [where energies = energies and T_in = "length memory"
      and memory = memory and cum = ?z, OF assms(1) T z]
  from inv [where queries = queries]
  have all: "list_all (\<lambda>a. length a = ?T \<and> sum_list a = 1 \<and> list_all (\<lambda>p. 0 < p) a) history"
    and len: "length history = length queries"
    unfolding h by simp_all
  have step: "length (history ! t) = ?T \<and> sum_list (history ! t) = 1 \<and>
      (\<forall>i<?T. 0 < history ! t ! i) \<and>
      (\<forall>i<?T. snd (attention_decode energies memory (take (Suc t) queries)) ! i
                 = (\<Sum>s\<le>t. history ! s ! i))"
    if t: "t < length queries" for t
  proof -
    from all t len have a: "length (history ! t) = ?T" "sum_list (history ! t) = 1"
      "list_all (\<lambda>p. 0 < p) (history ! t)"
      by (simp_all add: list_all_length)
    from a(1,3) have p: "\<forall>i<?T. 0 < history ! t ! i"
      by (simp add: list_all_length)
    have pre: "fst (attention_run energies memory (take (Suc t) queries) ?z) = take (Suc t) history"
      unfolding h by (rule attention_run_take)
    have "snd (attention_decode energies memory (take (Suc t) queries)) ! i
        = (\<Sum>s\<le>t. history ! s ! i)" if i: "i < ?T" for i
    proof -
      from inv [where queries = "take (Suc t) queries"] i
      have "snd (attention_run energies memory (take (Suc t) queries) ?z) ! i
          = ?z ! i + (\<Sum>a\<leftarrow>take (Suc t) history. a ! i)"
        unfolding pre by blast
      also have "\<dots> = (\<Sum>a\<leftarrow>take (Suc t) history. a ! i)"
        using i by simp
      also have "\<dots> = (\<Sum>s\<le>t. history ! s ! i)"
        using t len by (intro sum_list_take_nth) simp
      finally show ?thesis by (simp add: attention_decode_def)
    qed
    with a(1,2) p show ?thesis by blast
  qed
  from len step show ?thesis by blast
qed

lemma softmax_zeros: "softmax [0, 0] = [1 / 2, 1 / 2]"
  by (simp add: softmax_def)

lemma attention_decode_example:
  "attention_decode (\<lambda>q c. [0, 0]) [[1], [2]] [[], []] = ([[1 / 2, 1 / 2], [1 / 2, 1 / 2]], [1, 1])"
  by (simp add: attention_decode_def attention_step_def softmax_zeros Let_def eval_nat_numeral)

theorem attention_alignment_invariants_witness:
  "attention_decode (\<lambda>q c. [0, 0]) [[1], [2]] [[], []]
     = ([[1 / 2, 1 / 2], [1 / 2, 1 / 2]], [1, 1]) \<and>
   sum_list ([[1 / 2, 1 / 2], [1 / 2, 1 / 2 :: real]] ! 1) = 1 \<and>
   snd (attention_decode (\<lambda>q c. [0, 0]) [[1], [2]] (take (Suc 1) [[], []])) ! 0
     = (\<Sum>s\<le>1. [[1 / 2, 1 / 2], [1 / 2, 1 / 2 :: real]] ! s ! 0)"
proof -
  have e: "\<And>q c. length ((\<lambda>q c. [0, 0 :: real]) q c) = length [[1], [2 :: real]]"
    by simp
  have m: "[[1], [2 :: real]] \<noteq> []" by simp
  have lt: "1 < length [[], [] :: real list]" by simp
  have i0: "0 < length [[1], [2 :: real]]" by simp
  note th = attention_alignment_invariants [OF e m attention_decode_example,
      THEN conjunct2, rule_format, OF lt]
  from th have b: "sum_list ([[1 / 2, 1 / 2], [1 / 2, 1 / 2 :: real]] ! 1) = 1"
    by blast
  from th have "\<forall>i<length [[1], [2 :: real]].
      snd (attention_decode (\<lambda>q c. [0, 0]) [[1], [2]] (take (Suc 1) [[], []])) ! i
        = (\<Sum>s\<le>1. [[1 / 2, 1 / 2], [1 / 2, 1 / 2 :: real]] ! s ! i)"
    by blast
  from this [rule_format, OF i0] b attention_decode_example show ?thesis
    by (intro conjI)
qed

subsection \<open>The norm of the applied gradients\<close>

lemma global_norm_combined: "global_norm ts = combined_norm ts"
proof -
  have "sum_list (map l2_loss vs) * 2 = (\<Sum>v\<leftarrow>vs. (l2_norm v) ^ 2)" for vs
    by (induction vs) (simp_all add: l2_loss_norm algebra_simps)
  then show ?thesis
    by (simp add: global_norm_def combined_norm_def)
qed

lemma sqrt169: "sqrt 169 = 13"
  by (rule real_sqrt_unique) simp_all

lemma combined_norm_pair: "combined_norm [Some [3, 4], Some [0, 12]] = 13"
  by (simp add: combined_norm_def l2_norm_def List.map_filter_def lessThan_Suc sqrt169)

lemma combined_norm_pair_clipped:
  "combined_norm [Some [3 / 13, 4 / 13], Some [0, 12 / 13]] = 1"
  by (simp add: combined_norm_def l2_norm_def List.map_filter_def lessThan_Suc power_divide)

lemma combined_norm_small: "combined_norm [Some [3 / 5, 4 / 5], None] = 1"
  by (simp add: combined_norm_def l2_norm_def List.map_filter_def lessThan_Suc power_divide)

lemma add_optimizer_pair:
  "add_optimizer hp0 [(Some [3, 4], ''w''), (Some [0, 12], ''v'')] 0 =
     Inr \<lparr> learning_rate = 2, gradients = [Some [3, 4], Some [0, 12]],
           optimize = [(Some [3 / 13, 4 / 13], ''w''), (Some [0, 12 / 13], ''v'')] \<rparr>"
  by (simp add: add_optimizer_def hp0_def exponential_decay_def clip_by_global_norm_def
      global_norm_combined combined_norm_pair clip_scale_def Let_def)

text \<open>
  Claim C8.  The global norm is the combined norm of all the gradients.  Whenever
  \<^verbatim>\<open>add_optimizer\<close> succeeds, the gradients it hands to
  \<^verbatim>\<open>apply_gradients\<close> have a combined norm of at most 1; when the computed
  gradients have a combined norm above 1 every gradient is divided by that norm and
  the applied set has combined norm exactly 1; gradients whose combined norm is within
  1 are applied unchanged.
\<close>

theorem applied_gradients_global_norm:
  assumes "learning_rate_decay_halflife hp \<noteq> 0" and "\<exists>g v. (Some g, v) \<in> set gav"
  shows "\<exists>opt. add_optimizer hp gav step = Inr opt \<and>
           combined_norm (map fst (optimize opt)) \<le> 1 \<and>
           (1 < combined_norm (map fst gav) \<longrightarrow>
              combined_norm (map fst (optimize opt)) = 1 \<and>
              map fst (optimize opt) =
                map (map_option (map (\<lambda>v. v * (1 / combined_norm (map fst gav))))) (map fst gav)) \<and>
           (combined_norm (map fst gav) \<le> 1 \<longrightarrow> optimize opt = gav)"
proof -
  from add_optimizer_total [OF assms] obtain opt where r: "add_optimizer hp gav step = Inr opt"
    by blast
  let ?gs = "map fst gav"
  note f = add_optimizer_Inr [OF r]
  have a: "global_norm (map fst (optimize opt)) \<le> 1"
    by (simp add: f(2) clipped_norm)
  have b: "global_norm (map fst (optimize opt)) = 1 \<and>
           map fst (optimize opt) = map (map_option (map (\<lambda>v. v * (1 / global_norm ?gs)))) ?gs"
    if "1 < global_norm ?gs"
  proof -
    have "clip_scale (global_norm ?gs) 1 = 1 / global_norm ?gs"
      using that by (simp add: clip_scale_one)
    then have "fst (clip_by_global_norm ?gs 1) =
        map (map_option (map (\<lambda>v. v * (1 / global_norm ?gs)))) ?gs"
      unfolding clip_by_global_norm_def Let_def fst_conv by (rule arg_cong)
    moreover have "global_norm (fst (clip_by_global_norm ?gs 1)) = 1"
      using that by (simp add: clipped_norm)
    ultimately show ?thesis
      by (simp only: f(2))
  qed
  have c: "optimize opt = gav" if "global_norm ?gs \<le> 1"
  proof -
    have "map fst (optimize opt) = map fst gav"
      using that by (simp add: f(2) clipped_unchanged)
    with f(3) show ?thesis
      by (metis zip_map_fst_snd)
  qed
  from r a b c show ?thesis
    unfolding global_norm_combined by blast
qed

theorem applied_gradients_global_norm_witness:
  "(\<exists>opt. add_optimizer hp0 [(Some [3, 4], ''w''), (Some [0, 12], ''v'')] 0 = Inr opt \<and>
      optimize opt = [(Some [3 / 13, 4 / 13], ''w''), (Some [0, 12 / 13], ''v'')] \<and>
      combined_norm (map fst (optimize opt)) = 1) \<and>
   combined_norm [Some [3, 4], Some [0, 12]] = 13 \<and>
   (\<exists>opt. add_optimizer hp0 [(Some [3 / 5, 4 / 5], ''w''), (None, ''b'')] 1 = Inr opt \<and>
      optimize opt = [(Some [3 / 5, 4 / 5], ''w''), (None, ''b'')]) \<and>
   combined_norm [Some [3 / 5, 4 / 5], None] = 1"
proof -
  have h: "learning_rate_decay_halflife hp0 \<noteq> 0" by (simp add: hp0_def)
  have "\<exists>g v. (Some g, v) \<in> set [(Some [3, 4 :: real], ''w''), (Some [0, 12], ''v'')]"
    by auto
  from applied_gradients_global_norm [OF h this, of 0]
  have 1: "\<exists>opt. add_optimizer hp0 [(Some [3, 4], ''w''), (Some [0, 12], ''v'')] 0 = Inr opt \<and>
      optimize opt = [(Some [3 / 13, 4 / 13], ''w''), (Some [0, 12 / 13], ''v'')] \<and>
      combined_norm (map fst (optimize opt)) = 1"
    by (simp add: add_optimizer_pair combined_norm_pair combined_norm_pair_clipped)
  have "\<exists>g v. (Some g, v) \<in> set [(Some [3 / 5, 4 / 5 :: real], ''w''), (None, ''b'')]" by auto
  from applied_gradients_global_norm [OF h this, of 1]
  have 2: "\<exists>opt. add_optimizer hp0 [(Some [3 / 5, 4 / 5], ''w''), (None, ''b'')] 1 = Inr opt \<and>
      optimize opt = [(Some [3 / 5, 4 / 5], ''w''), (None, ''b'')]"
    by (simp add: add_optimizer_small)
  from 1 2 combined_norm_pair combined_norm_small show ?thesis by blast
qed

end
